theory Spec2Isabelle
  imports Complex_Main
begin

section \<open>Python values that reach the client\<close>

text \<open>
  The library (pyhologres) is a thin client: it receives Python values from its caller,
  turns them into SQL text or HTTP requests and hands those to a collaborator. The model
  keeps the values the code inspects and leaves the rest opaque.

  A float is finite or one of the three IEEE specials. An element of a list, tuple or
  array is a float or something else (an integer, a string, \<open>None\<close>, an object), kept by
  its \<open>repr\<close>. A value that can be handed to \<open>validate_vector_data\<close> is a list or tuple
  (with the shape numpy finds in it and its elements in row-major order, or ragged, so
  that numpy finds no shape; then only its length is kept), a numpy array of dtype
  \<open>float32\<close> or \<open>float64\<close>, a numpy array of another dtype, a string, \<open>None\<close>, or any
  other object.
\<close>

datatype pyfloat = Fin real | NaN | PosInf | NegInf

datatype pyelem = PyFloat pyfloat | PyOther string

datatype dtype = Float32 | Float64

datatype pyobj =
    PySeq "nat list" "pyelem list"
  | PyRagged nat
  | FloatArray dtype "nat list" "pyfloat list"
  | OtherArray "nat list" "pyelem list"
  | PyStr string
  | PyNone
  | PyObject

datatype ndarray = Array dtype "nat list" "pyfloat list"

datatype error =
    ValueError string
  | TypeError string
  | KeyError nat
  | IndexError string
  | OverflowError string
  | RequestException string
  | OtherException string

text \<open>
  numpy is not part of the repository. What the code asks of it are parameters: the cast
  of a float to \<open>float32\<close>, which always returns; the conversion of any other element to
  \<open>float32\<close>, which returns or raises (\<open>ValueError\<close> for a string that is no number,
  \<open>TypeError\<close> for an object); and the text \<open>str\<close> gives for an element of an array.
\<close>

record numpy =
  astype_float32 :: "pyfloat \<Rightarrow> pyfloat"
  convert_float32 :: "string \<Rightarrow> error + pyfloat"
  str_float :: "pyfloat \<Rightarrow> string"

definition cast_elem :: "numpy \<Rightarrow> pyelem \<Rightarrow> error + pyfloat" where
  "cast_elem np x = (case x of PyFloat y \<Rightarrow> Inr (astype_float32 np y)
                             | PyOther r \<Rightarrow> convert_float32 np r)"

text \<open>The conversion of the elements in order; the first that raises ends it.\<close>

fun cast_all :: "numpy \<Rightarrow> pyelem list \<Rightarrow> error + pyfloat list" where
  "cast_all np [] = Inr []"
| "cast_all np (x # xs) =
     (case cast_elem np x of
        Inl e \<Rightarrow> Inl e
      | Inr y \<Rightarrow> (case cast_all np xs of Inl e \<Rightarrow> Inl e | Inr ys \<Rightarrow> Inr (y # ys)))"

fun array_shape :: "ndarray \<Rightarrow> nat list" where
  "array_shape (Array dt sh xs) = sh"

fun array_data :: "ndarray \<Rightarrow> pyfloat list" where
  "array_data (Array dt sh xs) = xs"

definition ndim :: "ndarray \<Rightarrow> nat" where
  "ndim a = length (array_shape a)"

text \<open>\<open>len(a)\<close> of an array is the extent of its first axis.\<close>

definition array_len :: "ndarray \<Rightarrow> nat" where
  "array_len a = (case array_shape a of [] \<Rightarrow> 0 | n # _ \<Rightarrow> n)"

section \<open>schema.py\<close>

text \<open>
  \<open>validate_vector_data(data, expected_dim=None)\<close>: a list or tuple is converted to a
  \<open>float32\<close> array (\<open>np.array(data, dtype=np.float32)\<close>, which raises on a ragged list
  and on an element it cannot convert), an array of another dtype than
  \<open>float32\<close>/\<open>float64\<close> is cast (\<open>astype\<close>, which raises likewise), anything else
  raises. Then the array must have one axis, and, only when \<open>expected_dim\<close> is given,
  that many elements.
\<close>

definition validate_vector_data :: "numpy \<Rightarrow> pyobj \<Rightarrow> nat option \<Rightarrow> error + ndarray" where
  "validate_vector_data np data expected_dim =
     (case (case data of
              PySeq sh xs \<Rightarrow>
                (case cast_all np xs of Inl e \<Rightarrow> Inl e | Inr ys \<Rightarrow> Inr (Array Float32 sh ys))
            | PyRagged n \<Rightarrow>
                Inl (ValueError ''setting an array element with a sequence'')
            | FloatArray dt sh xs \<Rightarrow> Inr (Array dt sh xs)
            | OtherArray sh xs \<Rightarrow>
                (case cast_all np xs of Inl e \<Rightarrow> Inl e | Inr ys \<Rightarrow> Inr (Array Float32 sh ys))
            | _ \<Rightarrow> Inl (ValueError ''Invalid vector data type''))
      of Inl e \<Rightarrow> Inl e
       | Inr a \<Rightarrow>
           if ndim a \<noteq> 1 then Inl (ValueError ''Vector must be 1-dimensional'')
           else if expected_dim \<noteq> None \<and> array_len a \<noteq> the expected_dim
             then Inl (ValueError ''Vector dimension mismatch'')
           else Inr a)"

section \<open>query.py\<close>

definition ensure_vector_query :: "numpy \<Rightarrow> pyobj \<Rightarrow> error + ndarray" where
  "ensure_vector_query np query =
     (case query of
        PyStr s \<Rightarrow> Inl (ValueError ''String queries not supported for vector search'')
      | _ \<Rightarrow> validate_vector_data np query None)"

datatype arrow_type = ListT | FixedSizeListT nat | PrimitiveT string

record field =
  field_name :: string
  field_type :: arrow_type

text \<open>
  A condition is the pair \<open>(condition, args)\<close> that \<open>where\<close> appends. The list of
  conditions is a mutable Python list that \<open>where\<close> appends to in place, so the lists
  live in a store and a query holds the address of its list: whether a refinement of one
  query can reach another query is a question about these addresses.
\<close>

type_synonym condition = "string \<times> pyobj list"

record store =
  next_addr :: nat
  lists :: "nat \<Rightarrow> condition list"

definition alloc :: "store \<Rightarrow> condition list \<Rightarrow> store \<times> nat" where
  "alloc st v = (st\<lparr> next_addr := Suc (next_addr st), lists := (lists st)(next_addr st := v) \<rparr>,
                 next_addr st)"

definition list_append :: "store \<Rightarrow> nat \<Rightarrow> condition \<Rightarrow> store" where
  "list_append st a c = st\<lparr> lists := (lists st)(a := lists st a @ [c]) \<rparr>"

text \<open>
  The attributes of a \<open>HologresQuery\<close>. The first six are the constructor's arguments, the
  next five are the query building state the constructor initialises. \<open>_metric\<close>,
  \<open>_nprobes\<close> and \<open>_refine_factor\<close> are not set by the constructor: they exist only once
  the method of that name has assigned them, so each is an option, \<open>None\<close> standing for an
  object without the attribute. \<open>_select_columns\<close> holds the caller's list; no method
  of the class changes that list, so the model holds its value.
\<close>

record hologres_query =
  q_engine :: nat
  q_table_name :: string
  q_schema :: "field list"
  q_query :: pyobj
  q_vector_column_name :: "string option"
  q_query_type :: string
  q_limit_value :: "int option"
  q_offset_value :: "int option"
  q_where_conditions :: nat
  q_select_columns :: "string list option"
  q_order_by :: "string option"
  q_metric :: "string option"
  q_nprobes :: "int option"
  q_refine_factor :: "int option"

definition HologresQuery_init ::
  "store \<Rightarrow> nat \<Rightarrow> string \<Rightarrow> field list \<Rightarrow> pyobj \<Rightarrow> string option \<Rightarrow> string
     \<Rightarrow> store \<times> hologres_query" where
  "HologresQuery_init st engine table_name schema query vector_column_name query_type =
     (let (st, a) = alloc st []
      in (st, \<lparr> q_engine = engine, q_table_name = table_name, q_schema = schema,
                q_query = query, q_vector_column_name = vector_column_name,
                q_query_type = query_type,
                q_limit_value = None, q_offset_value = None, q_where_conditions = a,
                q_select_columns = None, q_order_by = None,
                q_metric = None, q_nprobes = None, q_refine_factor = None \<rparr>))"

text \<open>
  \<open>_copy\<close> builds a fresh object from the constructor's arguments and then assigns the
  five building attributes; the list of conditions is a new list with the same elements
  (\<open>.copy()\<close>).
\<close>

definition HologresQuery_copy :: "store \<Rightarrow> hologres_query \<Rightarrow> store \<times> hologres_query" where
  "HologresQuery_copy st self =
     (let (st, new_query) =
            HologresQuery_init st (q_engine self) (q_table_name self) (q_schema self)
              (q_query self) (q_vector_column_name self) (q_query_type self);
          (st, a) = alloc st (lists st (q_where_conditions self))
      in (st, new_query\<lparr> q_limit_value := q_limit_value self,
                          q_offset_value := q_offset_value self,
                          q_where_conditions := a,
                          q_select_columns := q_select_columns self,
                          q_order_by := q_order_by self \<rparr>))"

definition HologresQuery_limit :: "store \<Rightarrow> hologres_query \<Rightarrow> int \<Rightarrow> store \<times> hologres_query" where
  "HologresQuery_limit st self n =
     (let (st, new_query) = HologresQuery_copy st self
      in (st, new_query\<lparr> q_limit_value := Some n \<rparr>))"

definition HologresQuery_offset :: "store \<Rightarrow> hologres_query \<Rightarrow> int \<Rightarrow> store \<times> hologres_query" where
  "HologresQuery_offset st self n =
     (let (st, new_query) = HologresQuery_copy st self
      in (st, new_query\<lparr> q_offset_value := Some n \<rparr>))"

definition HologresQuery_where ::
  "store \<Rightarrow> hologres_query \<Rightarrow> string \<Rightarrow> pyobj list \<Rightarrow> store \<times> hologres_query" where
  "HologresQuery_where st self condition args =
     (let (st, new_query) = HologresQuery_copy st self
      in (list_append st (q_where_conditions new_query) (condition, args), new_query))"

definition HologresQuery_select ::
  "store \<Rightarrow> hologres_query \<Rightarrow> string list \<Rightarrow> store \<times> hologres_query" where
  "HologresQuery_select st self columns =
     (let (st, new_query) = HologresQuery_copy st self
      in (st, new_query\<lparr> q_select_columns := Some columns \<rparr>))"

definition HologresQuery_metric :: "store \<Rightarrow> hologres_query \<Rightarrow> string \<Rightarrow> store \<times> hologres_query" where
  "HologresQuery_metric st self m =
     (let (st, new_query) = HologresQuery_copy st self
      in (st, new_query\<lparr> q_metric := Some m \<rparr>))"

definition HologresQuery_nprobes :: "store \<Rightarrow> hologres_query \<Rightarrow> int \<Rightarrow> store \<times> hologres_query" where
  "HologresQuery_nprobes st self n =
     (let (st, new_query) = HologresQuery_copy st self
      in (st, new_query\<lparr> q_nprobes := Some n \<rparr>))"

definition HologresQuery_refine_factor ::
  "store \<Rightarrow> hologres_query \<Rightarrow> int \<Rightarrow> store \<times> hologres_query" where
  "HologresQuery_refine_factor st self n =
     (let (st, new_query) = HologresQuery_copy st self
      in (st, new_query\<lparr> q_refine_factor := Some n \<rparr>))"

subsection \<open>Lowering to SQL text\<close>

text \<open>\<open>sep.join(xs)\<close> and \<open>str\<close> of an integer, as Python writes them.\<close>

fun join :: "string \<Rightarrow> string list \<Rightarrow> string" where
  "join sep [] = []"
| "join sep [x] = x"
| "join sep (x # y # ys) = x @ sep @ join sep (y # ys)"

definition digit_char :: "nat \<Rightarrow> char" where
  "digit_char d = char_of (of_char (CHR ''0'') + d)"

fun str_nat :: "nat \<Rightarrow> string" where
  "str_nat n = (if n < 10 then [digit_char n] else str_nat (n div 10) @ [digit_char (n mod 10)])"

definition str_int :: "int \<Rightarrow> string" where
  "str_int i = (if i < 0 then CHR ''-'' # str_nat (nat (- i)) else str_nat (nat i))"

text \<open>
  Truth values of the attributes the method tests with a bare \<open>if\<close>: \<open>None\<close>, the empty
  list, the empty string and \<open>0\<close> are false.
\<close>

definition truthy_list :: "'a list option \<Rightarrow> bool" where
  "truthy_list v = (case v of None \<Rightarrow> False | Some xs \<Rightarrow> xs \<noteq> [])"

definition truthy_int :: "int option \<Rightarrow> bool" where
  "truthy_int v = (case v of None \<Rightarrow> False | Some n \<Rightarrow> n \<noteq> 0)"

text \<open>The condition that guards the distance computation, written twice in the method.\<close>

definition is_vector_search :: "hologres_query \<Rightarrow> bool" where
  "is_vector_search self =
     (q_query_type self = ''vector'' \<and> q_query self \<noteq> PyNone \<and> truthy_list (q_vector_column_name self))"

definition distance_expr :: "numpy \<Rightarrow> string \<Rightarrow> ndarray \<Rightarrow> string" where
  "distance_expr np column query_vector =
     (let vector_str = ''['' @ join '','' (map (str_float np) (array_data query_vector)) @ '']''
      in ''array_distance('' @ column @ '', '' @ [CHR 0x27] @ vector_str @ [CHR 0x27]
           @ ''::real[]) AS _distance'')"

text \<open>
  \<open>_build_sql\<close> returns the text, or raises from \<open>ensure_vector_query\<close>. It also assigns
  \<open>self._order_by\<close>, so the model returns the object as the call leaves it together with
  the result. The store is only read.

  The first half of the method computes \<open>select_clause\<close> and, for a vector search,
  assigns \<open>self._order_by\<close>; the second half appends the clauses to \<open>query\<close>.
\<close>

definition build_select_clause :: "numpy \<Rightarrow> hologres_query \<Rightarrow> error + (string \<times> hologres_query)" where
  "build_select_clause np self =
     (let select_clause =
            (if truthy_list (q_select_columns self) then join '', '' (the (q_select_columns self))
             else ''*'')
      in if is_vector_search self
         then (case ensure_vector_query np (q_query self) of
                 Inl e \<Rightarrow> Inl e
               | Inr query_vector \<Rightarrow>
                   let d = distance_expr np (the (q_vector_column_name self)) query_vector
                   in Inr ((if truthy_list (q_select_columns self)
                            then select_clause @ '', '' @ d
                            else ''*, '' @ d),
                           self\<lparr> q_order_by := Some ''_distance ASC'' \<rparr>))
         else Inr (select_clause, self))"

definition HologresQuery_build_sql ::
  "numpy \<Rightarrow> store \<Rightarrow> hologres_query \<Rightarrow> hologres_query \<times> (error + string)" where
  "HologresQuery_build_sql np st self =
     (case build_select_clause np self of
        Inl e \<Rightarrow> (self, Inl e)
      | Inr (select_clause, self) \<Rightarrow>
          let query = ''SELECT '' @ select_clause @ '' FROM '' @ q_table_name self;
              where_parts = map fst (lists st (q_where_conditions self));
              query = (if where_parts \<noteq> [] then query @ '' WHERE '' @ join '' AND '' where_parts
                       else query);
              query = (if truthy_list (q_order_by self)
                       then query @ '' ORDER BY '' @ the (q_order_by self) else query);
              query = (if truthy_int (q_limit_value self)
                       then query @ '' LIMIT '' @ str_int (the (q_limit_value self)) else query);
              query = (if truthy_int (q_offset_value self)
                       then query @ '' OFFSET '' @ str_int (the (q_offset_value self)) else query)
          in (self, Inr query))"

text \<open>
  \<open>to_pandas\<close> builds the text and returns what the database answers to it
  (\<open>pd.read_sql\<close>), with nothing done to the frame. The database is a parameter.
  \<open>to_arrow\<close> and \<open>to_list\<close> convert the frame \<open>to_pandas\<close> returns.
\<close>

definition HologresQuery_to_pandas ::
  "numpy \<Rightarrow> (string \<Rightarrow> 'df) \<Rightarrow> store \<Rightarrow> hologres_query \<Rightarrow> hologres_query \<times> (error + 'df)" where
  "HologresQuery_to_pandas np read_sql st self =
     (case HologresQuery_build_sql np st self of
        (self, Inl e) \<Rightarrow> (self, Inl e)
      | (self, Inr sql) \<Rightarrow> (self, Inr (read_sql sql)))"

definition HologresQuery_to_arrow ::
  "numpy \<Rightarrow> (string \<Rightarrow> 'df) \<Rightarrow> ('df \<Rightarrow> 'tbl) \<Rightarrow> store \<Rightarrow> hologres_query
     \<Rightarrow> hologres_query \<times> (error + 'tbl)" where
  "HologresQuery_to_arrow np read_sql from_pandas st self =
     (case HologresQuery_to_pandas np read_sql st self of
        (self, Inl e) \<Rightarrow> (self, Inl e)
      | (self, Inr df) \<Rightarrow> (self, Inr (from_pandas df)))"

definition HologresQuery_to_list ::
  "numpy \<Rightarrow> (string \<Rightarrow> 'df) \<Rightarrow> ('df \<Rightarrow> 'recs) \<Rightarrow> store \<Rightarrow> hologres_query
     \<Rightarrow> hologres_query \<times> (error + 'recs)" where
  "HologresQuery_to_list np read_sql to_dict st self =
     (case HologresQuery_to_pandas np read_sql st self of
        (self, Inl e) \<Rightarrow> (self, Inl e)
      | (self, Inr df) \<Rightarrow> (self, Inr (to_dict df)))"

section \<open>table.py\<close>

text \<open>
  A record batch is its columns, each a name and the values of the rows in order. pandas
  is not part of the repository; the frame keeps what \<open>_insert_batch\<close> uses of one: the
  row labels (\<open>batch.to_pandas()\<close> labels the rows \<open>0, 1, ...\<close>), the columns,
  \<open>df.drop(index=i)\<close>, which removes the row labelled \<open>i\<close> and raises \<open>KeyError\<close> when no
  row has that label, and the assignment of a list to a column, which raises when the
  lengths differ.
\<close>

type_synonym columns = "(string \<times> pyobj list) list"

type_synonym row = "(string \<times> pyobj) list"

record dataframe =
  df_index :: "nat list"
  df_columns :: columns

definition num_rows :: "columns \<Rightarrow> nat" where
  "num_rows batch = (case batch of [] \<Rightarrow> 0 | (name, col) # _ \<Rightarrow> length col)"

definition batch_to_pandas :: "columns \<Rightarrow> dataframe" where
  "batch_to_pandas batch = \<lparr> df_index = [0..<num_rows batch], df_columns = batch \<rparr>"

definition df_drop :: "dataframe \<Rightarrow> nat \<Rightarrow> error + dataframe" where
  "df_drop df i =
     (if i \<in> set (df_index df)
      then Inr \<lparr> df_index = filter (\<lambda>l. l \<noteq> i) (df_index df),
                 df_columns = map (\<lambda>(name, col).
                     (name, map snd (filter (\<lambda>(l, v). l \<noteq> i) (zip (df_index df) col))))
                   (df_columns df) \<rparr>
      else Inl (KeyError i))"

fun set_column :: "string \<Rightarrow> pyobj list \<Rightarrow> columns \<Rightarrow> columns" where
  "set_column name vs [] = [(name, vs)]"
| "set_column name vs ((n, col) # cs) =
     (if n = name then (name, vs) # cs else (n, col) # set_column name vs cs)"

definition df_setitem :: "dataframe \<Rightarrow> string \<Rightarrow> pyobj list \<Rightarrow> error + dataframe" where
  "df_setitem df name vs =
     (if length vs = length (df_index df)
      then Inr (df\<lparr> df_columns := set_column name vs (df_columns df) \<rparr>)
      else Inl (ValueError ''Length of values does not match length of index''))"

text \<open>The rows \<open>df.to_sql(..., index=False)\<close> sends, one per position.\<close>

definition df_rows :: "dataframe \<Rightarrow> row list" where
  "df_rows df = map (\<lambda>p. map (\<lambda>(name, col). (name, col ! p)) (df_columns df))
                    [0..<length (df_index df)]"

fun tolist :: "ndarray \<Rightarrow> pyobj" where
  "tolist (Array dt sh xs) = PySeq sh (map PyFloat xs)"

text \<open>\<open>pa.types.is_list\<close> holds of the variable-size list type only.\<close>

definition is_list :: "arrow_type \<Rightarrow> bool" where
  "is_list t = (t = ListT)"

text \<open>
  \<open>len(vec) if hasattr(vec, '__len__') else 128\<close>: a list, an array and a string have a
  length (\<open>len\<close> of an array without axes raises), \<open>None\<close> has none, and the other objects
  of the model are those without one.
\<close>

definition fill_dim :: "pyobj \<Rightarrow> error + nat" where
  "fill_dim vec =
     (case vec of
        PySeq sh xs \<Rightarrow> Inr (case sh of [] \<Rightarrow> 0 | n # _ \<Rightarrow> n)
      | PyRagged n \<Rightarrow> Inr n
      | FloatArray dt sh xs \<Rightarrow>
          (case sh of [] \<Rightarrow> Inl (TypeError ''len() of unsized object'') | n # _ \<Rightarrow> Inr n)
      | OtherArray sh xs \<Rightarrow>
          (case sh of [] \<Rightarrow> Inl (TypeError ''len() of unsized object'') | n # _ \<Rightarrow> Inr n)
      | PyStr s \<Rightarrow> Inr (length s)
      | PyNone \<Rightarrow> Inr 128
      | PyObject \<Rightarrow> Inr 128)"

text \<open>
  The inner loop of \<open>_insert_batch\<close> over \<open>enumerate(df[field.name])\<close>. The column is read
  once, before the loop; \<open>df\<close> and \<open>vectors\<close> are the loop's variables.
  \<open>validate_vector_data\<close> is called without \<open>expected_dim\<close>. Only a \<open>ValueError\<close> is
  caught; any other exception leaves the method.
\<close>

fun validate_column ::
  "numpy \<Rightarrow> string \<Rightarrow> pyfloat \<Rightarrow> (nat \<times> pyobj) list \<Rightarrow> dataframe \<Rightarrow> pyobj list
     \<Rightarrow> error + (dataframe \<times> pyobj list)" where
  "validate_column np on_bad_vectors fill_value [] df vectors = Inr (df, vectors)"
| "validate_column np on_bad_vectors fill_value ((i, vec) # rest) df vectors =
     (case validate_vector_data np vec None of
        Inr validated_vec \<Rightarrow>
          validate_column np on_bad_vectors fill_value rest df (vectors @ [tolist validated_vec])
      | Inl e \<Rightarrow>
          (case e of
             ValueError m \<Rightarrow>
               if on_bad_vectors = ''error'' then Inl e
               else if on_bad_vectors = ''drop'' then
                 (case df_drop df i of
                    Inl e' \<Rightarrow> Inl e'
                  | Inr df' \<Rightarrow> validate_column np on_bad_vectors fill_value rest df' vectors)
               else if on_bad_vectors = ''fill'' then
                 (case fill_dim vec of
                    Inl e' \<Rightarrow> Inl e'
                  | Inr vdim \<Rightarrow>
                      validate_column np on_bad_vectors fill_value rest df
                        (vectors @ [PySeq [vdim] (replicate vdim (PyFloat fill_value))]))
               else Inl (ValueError ''Invalid on_bad_vectors option'')
           | _ \<Rightarrow> Inl e))"

text \<open>The outer loop over the fields of the table's schema.\<close>

fun validate_fields ::
  "numpy \<Rightarrow> string \<Rightarrow> pyfloat \<Rightarrow> field list \<Rightarrow> dataframe \<Rightarrow> error + dataframe" where
  "validate_fields np on_bad_vectors fill_value [] df = Inr df"
| "validate_fields np on_bad_vectors fill_value (f # fs) df =
     (if is_list (field_type f) then
        (case map_of (df_columns df) (field_name f) of
           None \<Rightarrow> validate_fields np on_bad_vectors fill_value fs df
         | Some col \<Rightarrow>
             (case validate_column np on_bad_vectors fill_value (enumerate 0 col) df [] of
                Inl e \<Rightarrow> Inl e
              | Inr (df', vectors) \<Rightarrow>
                  (case df_setitem df' (field_name f) vectors of
                     Inl e \<Rightarrow> Inl e
                   | Inr df'' \<Rightarrow> validate_fields np on_bad_vectors fill_value fs df'')))
      else validate_fields np on_bad_vectors fill_value fs df)"

text \<open>
  The table in the database is the list of its rows. \<open>DELETE FROM\<close> empties it and
  \<open>to_sql(if_exists="append")\<close> appends the frame's rows. A call returns the table as
  it leaves it and the exception it raised, if any.
\<close>

record hologres_table =
  t_engine :: nat
  t_name :: string
  t_schema :: "field list"

definition HologresTable_insert_batch ::
  "numpy \<Rightarrow> hologres_table \<Rightarrow> columns \<Rightarrow> string \<Rightarrow> pyfloat \<Rightarrow> row list \<Rightarrow> row list \<times> error option" where
  "HologresTable_insert_batch np self batch on_bad_vectors fill_value db =
     (case validate_fields np on_bad_vectors fill_value (t_schema self) (batch_to_pandas batch) of
        Inl e \<Rightarrow> (db, Some e)
      | Inr df \<Rightarrow> (db @ df_rows df, None))"

text \<open>
  \<open>_into_pyarrow_reader\<close> tells the data by its type: a reader, a table or a non-empty
  list of batches gives its batches, a batch, a dictionary of lists or a data frame gives
  one batch, a non-empty list of dictionaries goes to \<open>pa.table\<close>, which raises for a
  list without names, and anything else, the empty list too, raises. The conversions
  themselves are pyarrow's work, and a batch stands for its values as the method that
  consumes it reads them (\<open>to_pandas\<close> on the local table, \<open>to_pydict\<close> on the remote
  one). Of what pyarrow refuses the model keeps what it can tell: batches whose columns
  have different names are no table, and the lists of a dictionary must have one length;
  both are an \<open>ArrowInvalid\<close>, a \<open>ValueError\<close>.
\<close>

datatype table_data =
    RecordBatchReader "columns list"
  | ArrowTable "columns list"
  | RecordBatch columns
  | RecordBatchList "columns list"
  | DictList
  | ColumnDict columns
  | DataFrame columns
  | OtherData

definition into_pyarrow_reader :: "table_data \<Rightarrow> error + columns list" where
  "into_pyarrow_reader data =
     (case data of
        RecordBatchReader bs \<Rightarrow> Inr bs
      | ArrowTable bs \<Rightarrow> Inr bs
      | RecordBatch b \<Rightarrow> Inr [b]
      | RecordBatchList bs \<Rightarrow>
          if bs = [] then Inl (ValueError ''Cannot convert data to PyArrow RecordBatchReader'')
          else if list_all (\<lambda>b. map fst b = map fst (hd bs)) bs then Inr bs
          else Inl (ValueError ''Schema at index was different'')
      | DictList \<Rightarrow>
          Inl (ValueError ''Must pass names or schema when constructing Table or RecordBatch'')
      | ColumnDict b \<Rightarrow>
          if list_all (\<lambda>(name, c). length c = num_rows b) b then Inr [b]
          else Inl (ValueError ''Column expected length but got length'')
      | DataFrame b \<Rightarrow> Inr [b]
      | OtherData \<Rightarrow> Inl (ValueError ''Cannot convert data to PyArrow RecordBatchReader''))"

fun insert_batches ::
  "numpy \<Rightarrow> hologres_table \<Rightarrow> string \<Rightarrow> pyfloat \<Rightarrow> columns list \<Rightarrow> row list \<Rightarrow> row list \<times> error option" where
  "insert_batches np self on_bad_vectors fill_value [] db = (db, None)"
| "insert_batches np self on_bad_vectors fill_value (batch # rest) db =
     (case HologresTable_insert_batch np self batch on_bad_vectors fill_value db of
        (db', Some e) \<Rightarrow> (db', Some e)
      | (db', None) \<Rightarrow> insert_batches np self on_bad_vectors fill_value rest db')"

definition HologresTable_add ::
  "numpy \<Rightarrow> hologres_table \<Rightarrow> table_data \<Rightarrow> string \<Rightarrow> string \<Rightarrow> pyfloat \<Rightarrow> row list
     \<Rightarrow> row list \<times> error option" where
  "HologresTable_add np self data mode on_bad_vectors fill_value db =
     (let db = (if mode = ''overwrite'' then [] else db)
      in case into_pyarrow_reader data of
           Inl e \<Rightarrow> (db, Some e)
         | Inr reader \<Rightarrow> insert_batches np self on_bad_vectors fill_value reader db)"

section \<open>remote/client.py\<close>

text \<open>
  The fields of \<open>ClientConfig\<close>. \<open>max_retries\<close> is an \<open>int\<close> and \<open>retry_delay\<close> a
  float, and the class constrains neither.
\<close>

record client_config =
  cfg_timeout :: real
  max_retries :: int
  retry_delay :: pyfloat
  max_connections :: int
  user_agent :: string
  verify_ssl :: bool

definition default_config :: client_config where
  "default_config = \<lparr> cfg_timeout = 30, max_retries = 3, retry_delay = Fin 1,
                       max_connections = 100, user_agent = ''pyhologres/0.1.0'',
                       verify_ssl = True \<rparr>"

text \<open>
  \<open>retry_delay * (2 ** attempt)\<close>: the power is an \<open>int\<close>, and its conversion to a
  float for the product raises \<open>OverflowError\<close> from \<open>2 ** 1024\<close> on. The delay is a
  double: a finite one is taken as the real it denotes, its product with a power of two
  is exact, and a product beyond the range of a double is an infinity. NaN and the
  infinities stay what they are, the factor being positive.
\<close>

definition float_overflow :: real where
  "float_overflow = 2 ^ 1024"

definition times_pow2 :: "pyfloat \<Rightarrow> nat \<Rightarrow> error + pyfloat" where
  "times_pow2 d k =
     (if 1024 \<le> k then Inl (OverflowError ''int too large to convert to float'')
      else Inr (case d of
                  Fin r \<Rightarrow> if float_overflow \<le> r * 2 ^ k then PosInf
                          else if r * 2 ^ k \<le> - float_overflow then NegInf
                          else Fin (r * 2 ^ k)
                | x \<Rightarrow> x))"

text \<open>
  \<open>time.sleep\<close> is the interpreter's. It converts the delay to the nanoseconds of its
  clock, a signed integer of 64 bits: NaN raises \<open>ValueError\<close>, and a delay beyond
  \<open>max_sleep\<close>, the seconds that clock can count (the rounding of the conversion
  apart), raises \<open>OverflowError\<close>. Then a negative delay raises \<open>ValueError\<close>; any
  other delay is slept.
\<close>

definition max_sleep :: real where
  "max_sleep = 2 ^ 63 / 10 ^ 9"

definition time_sleep :: "pyfloat \<Rightarrow> error + real" where
  "time_sleep secs =
     (case secs of
        Fin r \<Rightarrow>
          if max_sleep < \<bar>r\<bar>
          then Inl (OverflowError ''timestamp too large to convert to C _PyTime_t'')
          else if r < 0 then Inl (ValueError ''sleep length must be non-negative'')
          else Inr r
      | NaN \<Rightarrow> Inl (ValueError ''Invalid value NaN (not a number)'')
      | PosInf \<Rightarrow> Inl (OverflowError ''timestamp too large to convert to C _PyTime_t'')
      | NegInf \<Rightarrow> Inl (OverflowError ''timestamp too large to convert to C _PyTime_t''))"

text \<open>
  What \<open>_make_request\<close> does to the outside is the sequence of requests it sends and of
  sleeps between them. The server is the outcome of each attempt: a response, or the
  exception that \<open>session.request\<close>, \<open>raise_for_status\<close> or \<open>json\<close> raised. Only a
  \<open>requests.RequestException\<close> is caught, and what the product or \<open>time.sleep\<close>
  raises inside the handler leaves the method. The body of the \<open>for\<close> loop over
  \<open>range(max_retries + 1)\<close> is the second equation; a loop that ends without a return
  makes the method return \<open>None\<close>.
\<close>

datatype event = Request nat | Sleep real

fun request_loop ::
  "client_config \<Rightarrow> (nat \<Rightarrow> error + 'r) \<Rightarrow> nat list \<Rightarrow> event list \<times> (error + 'r option)" where
  "request_loop config server [] = ([], Inr None)"
| "request_loop config server (attempt # rest) =
     (case server attempt of
        Inr response \<Rightarrow> ([Request attempt], Inr (Some response))
      | Inl e \<Rightarrow>
          (case e of
             RequestException m \<Rightarrow>
               if int attempt < max_retries config then
                 (case times_pow2 (retry_delay config) attempt of
                    Inl e' \<Rightarrow> ([Request attempt], Inl e')
                  | Inr delay \<Rightarrow>
                      (case time_sleep delay of
                         Inl e' \<Rightarrow> ([Request attempt], Inl e')
                       | Inr slept \<Rightarrow>
                           (let (events, result) = request_loop config server rest
                            in (Request attempt # Sleep slept # events, result))))
               else ([Request attempt], Inl e)
           | _ \<Rightarrow> ([Request attempt], Inl e)))"

definition HologresCloudClient_make_request ::
  "client_config \<Rightarrow> (nat \<Rightarrow> error + 'r) \<Rightarrow> event list \<times> (error + 'r option)" where
  "HologresCloudClient_make_request config server =
     request_loop config server [0..<nat (max_retries config + 1)]"

definition attempts :: "event list \<Rightarrow> nat" where
  "attempts events = length (filter (\<lambda>ev. case ev of Request k \<Rightarrow> True | Sleep d \<Rightarrow> False) events)"

text \<open>\<open>insert_data\<close> posts the rows and the mode to the table's data endpoint.\<close>

record http_request =
  req_method :: string
  req_endpoint :: string
  req_data :: "row list"
  req_mode :: string

definition HologresCloudClient_insert_data :: "string \<Rightarrow> string \<Rightarrow> row list \<Rightarrow> string \<Rightarrow> http_request" where
  "HologresCloudClient_insert_data database table_name data mode =
     \<lparr> req_method = ''POST'',
       req_endpoint = ''/api/v1/databases/'' @ database @ ''/tables/'' @ table_name @ ''/data'',
       req_data = data, req_mode = mode \<rparr>"

section \<open>remote/table.py\<close>

text \<open>
  \<open>Table\<close> is an abstract base class: a class can be instantiated only when it defines
  every method \<open>Table\<close> declares abstract. \<open>HologresTable\<close> defines them all.
  \<open>RemoteTable\<close> defines no \<open>__len__\<close>, so calling it raises \<open>TypeError\<close>, and an
  instance of it is an instance of a subclass that adds the method; the methods of
  \<open>RemoteTable\<close> below are then those of that instance.
\<close>

definition Table_abstract_methods :: "string list" where
  "Table_abstract_methods =
     [''name'', ''schema'', ''__len__'', ''count_rows'', ''to_pandas'', ''to_arrow'', ''add'',
      ''search'', ''create_index'', ''create_fts_index'', ''update'', ''delete'']"

definition HologresTable_methods :: "string list" where
  "HologresTable_methods =
     [''__init__'', ''name'', ''schema'', ''__len__'', ''count_rows'', ''to_pandas'', ''to_arrow'',
      ''_create_table'', ''add'', ''_insert_batch'', ''search'', ''create_index'',
      ''create_fts_index'', ''update'', ''delete'']"

definition RemoteTable_methods :: "string list" where
  "RemoteTable_methods =
     [''__init__'', ''name'', ''schema'', ''count_rows'', ''to_pandas'', ''to_polars'', ''to_arrow'',
      ''add'', ''search'', ''create_index'', ''create_fts_index'', ''update'', ''delete'',
      ''cleanup_old_versions'', ''compact_files'', ''list_indices'', ''__repr__'', ''__str__'']"

definition instantiate :: "string list \<Rightarrow> 'a \<Rightarrow> error + 'a" where
  "instantiate methods obj =
     (if list_all (\<lambda>m. m \<in> set methods) Table_abstract_methods then Inr obj
      else Inl (TypeError ''Can't instantiate abstract class''))"

record remote_table =
  rt_database :: string
  rt_name :: string
  rt_schema :: "field list"

text \<open>
  \<open>RemoteTable(client, database, name, schema)\<close>, and the same call of a subclass that
  defines the methods \<open>extra\<close> and inherits the rest.
\<close>

definition RemoteTable_new :: "string \<Rightarrow> string \<Rightarrow> field list \<Rightarrow> error + remote_table" where
  "RemoteTable_new database name schema =
     instantiate RemoteTable_methods
       \<lparr> rt_database = database, rt_name = name, rt_schema = schema \<rparr>"

definition RemoteTable_subclass_new ::
  "string list \<Rightarrow> string \<Rightarrow> string \<Rightarrow> field list \<Rightarrow> error + remote_table" where
  "RemoteTable_subclass_new extra database name schema =
     instantiate (extra @ RemoteTable_methods)
       \<lparr> rt_database = database, rt_name = name, rt_schema = schema \<rparr>"

text \<open>
  The rows \<open>RemoteTable.add\<close> builds from a batch: the number of rows is the length of the
  first column (\<open>IndexError\<close> when the batch has no column), and a value that is a list is
  replaced by its JSON text. \<open>json.dumps\<close> is a parameter.
\<close>

definition batch_rows :: "(pyobj \<Rightarrow> string) \<Rightarrow> columns \<Rightarrow> error + row list" where
  "batch_rows json_dumps batch =
     (case batch of
        [] \<Rightarrow> Inl (IndexError ''list index out of range'')
      | (name0, col0) # _ \<Rightarrow>
          Inr (map (\<lambda>i. map (\<lambda>(column_name, column_data).
                               (column_name,
                                case column_data ! i of
                                  PySeq sh xs \<Rightarrow> PyStr (json_dumps (PySeq sh xs))
                                | PyRagged n \<Rightarrow> PyStr (json_dumps (PyRagged n))
                                | v \<Rightarrow> v))
                         batch)
                   [0..<length col0]))"

text \<open>
  The loop of \<open>RemoteTable.add\<close> over the batches. Each batch is one call of
  \<open>insert_data(self._database, self._name, rows)\<close>, so with the default mode
  \<open>"append"\<close>; \<open>send\<close> is what \<open>_make_request\<close> makes of the request. The result is the
  requests sent, in order, and the exception raised, if any.
\<close>

fun remote_insert_batches ::
  "(http_request \<Rightarrow> error + 'r) \<Rightarrow> (pyobj \<Rightarrow> string) \<Rightarrow> remote_table \<Rightarrow> columns list
     \<Rightarrow> http_request list \<times> error option" where
  "remote_insert_batches send json_dumps self [] = ([], None)"
| "remote_insert_batches send json_dumps self (batch # rest) =
     (case batch_rows json_dumps batch of
        Inl e \<Rightarrow> ([], Some e)
      | Inr rows \<Rightarrow>
          (let request = HologresCloudClient_insert_data (rt_database self) (rt_name self) rows ''append''
           in case send request of
                Inl e \<Rightarrow> ([request], Some e)
              | Inr response \<Rightarrow>
                  (let (requests, result) = remote_insert_batches send json_dumps self rest
                   in (request # requests, result))))"

definition RemoteTable_add ::
  "(http_request \<Rightarrow> error + 'r) \<Rightarrow> (pyobj \<Rightarrow> string) \<Rightarrow> remote_table \<Rightarrow> table_data
     \<Rightarrow> string \<Rightarrow> string \<Rightarrow> pyfloat \<Rightarrow> http_request list \<times> error option" where
  "RemoteTable_add send json_dumps self data mode on_bad_vectors fill_value =
     (case into_pyarrow_reader data of
        Inl e \<Rightarrow> ([], Some e)
      | Inr reader \<Rightarrow> remote_insert_batches send json_dumps self reader)"

section \<open>Calling the constructor\<close>

text \<open>
  How Python binds the arguments of a call to the parameters of a function: positional
  arguments fill the parameters from the left, a keyword must name a parameter that is
  not bound yet, and every parameter without a default must end up bound. Each failure
  is a \<open>TypeError\<close>.
\<close>

datatype pyarg =
    EngineArg nat
  | StrArg string
  | SchemaArg "field list"
  | ObjArg pyobj
  | OptStrArg "string option"
  | RemoteTableArg remote_table

fun bind_keywords ::
  "string list \<Rightarrow> (string \<times> pyarg) list \<Rightarrow> (string \<times> pyarg) list \<Rightarrow> error + (string \<times> pyarg) list" where
  "bind_keywords names bound [] = Inr bound"
| "bind_keywords names bound ((k, v) # kwargs) =
     (if k \<notin> set names then Inl (TypeError (''got an unexpected keyword argument '' @ k))
      else if k \<in> set (map fst bound) then Inl (TypeError (''got multiple values for argument '' @ k))
      else bind_keywords names (bound @ [(k, v)]) kwargs)"

definition bind_arguments ::
  "(string \<times> pyarg option) list \<Rightarrow> pyarg list \<Rightarrow> (string \<times> pyarg) list \<Rightarrow> error + (string \<Rightarrow> pyarg option)" where
  "bind_arguments params args kwargs =
     (if length params < length args then Inl (TypeError ''too many positional arguments'')
      else case bind_keywords (map fst params) (zip (map fst params) args) kwargs of
             Inl e \<Rightarrow> Inl e
           | Inr bound \<Rightarrow>
               if list_ex (\<lambda>(name, default). default = None \<and> map_of bound name = None) params
               then Inl (TypeError ''missing required positional arguments'')
               else Inr (\<lambda>name. case map_of bound name of
                                   Some v \<Rightarrow> Some v
                                 | None \<Rightarrow> (case map_of params name of Some d \<Rightarrow> d | None \<Rightarrow> None)))"

text \<open>
  The parameters of \<open>HologresQuery.__init__\<close> after \<open>self\<close>, with their defaults, and a
  call of the class. The record of a query is typed, so a call that binds a parameter to
  a value of another kind than its annotation is outside the model; no call in the
  repository that binds at all does so.
\<close>

definition HologresQuery_params :: "(string \<times> pyarg option) list" where
  "HologresQuery_params =
     [(''engine'', None), (''table_name'', None), (''schema'', None),
      (''query'', Some (ObjArg PyNone)), (''vector_column_name'', Some (OptStrArg None)),
      (''query_type'', Some (StrArg ''vector''))]"

definition HologresQuery_call ::
  "store \<Rightarrow> pyarg list \<Rightarrow> (string \<times> pyarg) list \<Rightarrow> store \<times> (error + hologres_query)" where
  "HologresQuery_call st args kwargs =
     (case bind_arguments HologresQuery_params args kwargs of
        Inl e \<Rightarrow> (st, Inl e)
      | Inr b \<Rightarrow>
          (case (b ''engine'', b ''table_name'', b ''schema'', b ''query'',
                 b ''vector_column_name'', b ''query_type'') of
             (Some (EngineArg engine), Some (StrArg table_name), Some (SchemaArg schema),
              Some (ObjArg query), Some (OptStrArg vector_column_name), Some (StrArg query_type)) \<Rightarrow>
               (let (st, q) = HologresQuery_init st engine table_name schema query
                                vector_column_name query_type
                in (st, Inr q))
           | _ \<Rightarrow> (st, Inl (TypeError ''argument outside the model''))))"

text \<open>\<open>HologresTable.search\<close> and \<open>RemoteTable.search\<close>, each one call of the class.\<close>

definition HologresTable_search ::
  "store \<Rightarrow> hologres_table \<Rightarrow> pyobj \<Rightarrow> string option \<Rightarrow> string \<Rightarrow> store \<times> (error + hologres_query)" where
  "HologresTable_search st self query vector_column_name query_type =
     HologresQuery_call st
       [EngineArg (t_engine self), StrArg (t_name self), SchemaArg (t_schema self)]
       [(''query'', ObjArg query), (''vector_column_name'', OptStrArg vector_column_name),
        (''query_type'', StrArg query_type)]"

definition RemoteTable_search ::
  "store \<Rightarrow> remote_table \<Rightarrow> pyobj \<Rightarrow> string option \<Rightarrow> string \<Rightarrow> store \<times> (error + hologres_query)" where
  "RemoteTable_search st self query vector_column_name query_type =
     HologresQuery_call st []
       [(''table'', RemoteTableArg self), (''query'', ObjArg query),
        (''vector_column_name'', OptStrArg vector_column_name),
        (''query_type'', StrArg query_type)]"

section \<open>common.py and db.py\<close>

definition startswith :: "string \<Rightarrow> string \<Rightarrow> bool" where
  "startswith s prefix = (take (length prefix) s = prefix)"

definition is_postgres_uri :: "string \<Rightarrow> bool" where
  "is_postgres_uri uri = (startswith uri ''postgresql://'' \<or> startswith uri ''postgres://'')"

datatype uri = StrUri string | PathUri string

text \<open>\<open>sanitize_uri\<close>; making a path absolute is the file system's work, a parameter.\<close>

definition sanitize_uri :: "(string \<Rightarrow> string) \<Rightarrow> uri \<Rightarrow> string" where
  "sanitize_uri absolute u =
     (case u of
        PathUri p \<Rightarrow> absolute p
      | StrUri s \<Rightarrow>
          if startswith s ''holo://'' then s
          else if is_postgres_uri s then s
          else if \<not> (startswith s ''http://'' \<or> startswith s ''https://'' \<or> startswith s ''s3://''
                     \<or> startswith s ''gs://'' \<or> startswith s ''azure://'')
            then absolute s
          else s)"

text \<open>
  What \<open>urlparse\<close> finds in a URI (a parameter), and the entries of the dictionary
  \<open>parse_hologres_uri\<close> returns that the connection reads with \<open>get\<close>; an entry that is
  absent or \<open>None\<close> is \<open>None\<close>.
\<close>

record url_parts =
  url_scheme :: string
  url_netloc :: string
  url_username :: "string option"
  url_password :: "string option"
  url_hostname :: "string option"
  url_port :: "int option"
  url_path :: string

record parsed_uri =
  p_scheme :: string
  p_username :: "string option"
  p_password :: "string option"
  p_hostname :: "string option"
  p_port :: "int option"
  p_database :: "string option"

definition parse_hologres_uri :: "(string \<Rightarrow> url_parts) \<Rightarrow> string \<Rightarrow> error + parsed_uri" where
  "parse_hologres_uri urlparse uri =
     (if startswith uri ''holo://'' then
        Inr \<lparr> p_scheme = ''holo'', p_username = None, p_password = None, p_hostname = None,
              p_port = None, p_database = None \<rparr>
      else if is_postgres_uri uri then
        (let parsed = urlparse uri
         in Inr \<lparr> p_scheme = url_scheme parsed, p_username = url_username parsed,
                  p_password = url_password parsed, p_hostname = url_hostname parsed,
                  p_port = url_port parsed,
                  p_database = (if url_path parsed \<noteq> []
                                then Some (dropWhile (\<lambda>c. c = CHR ''/'') (url_path parsed))
                                else None) \<rparr>)
      else Inl (ValueError ''Unsupported URI scheme''))"

text \<open>\<open>a or b\<close> on optional strings and on the port.\<close>

definition or_str :: "string option \<Rightarrow> string option \<Rightarrow> string option" where
  "or_str a b = (if truthy_list a then a else b)"

definition or_port :: "int \<Rightarrow> int option \<Rightarrow> int option" where
  "or_port a b = (if a \<noteq> 0 then Some a else b)"

text \<open>
  The attributes of a \<open>HologresDBConnection\<close> that hold the connection parameters, and
  the string the engine is created from (\<open>create_engine(connection_string)\<close>).
\<close>

record db_connection =
  c_uri :: string
  c_username :: "string option"
  c_password :: "string option"
  c_database :: "string option"
  c_host :: "string option"
  c_port :: "int option"
  c_engine :: string

definition str_port :: "int option \<Rightarrow> string" where
  "str_port p = (case p of None \<Rightarrow> ''None'' | Some n \<Rightarrow> str_int n)"

definition HologresDBConnection_build_connection_string :: "db_connection \<Rightarrow> error + string" where
  "HologresDBConnection_build_connection_string self =
     (if is_postgres_uri (c_uri self) then Inr (c_uri self)
      else if \<not> (truthy_list (c_username self) \<and> truthy_list (c_password self)
                  \<and> truthy_list (c_host self) \<and> truthy_list (c_database self))
        then Inl (ValueError ''username, password, host, and database are required for Hologres connection'')
      else Inr (''postgresql://'' @ the (c_username self) @ '':'' @ the (c_password self) @ ''@''
                @ the (c_host self) @ '':'' @ str_port (c_port self) @ ''/'' @ the (c_database self)))"

definition HologresDBConnection_init ::
  "(string \<Rightarrow> string) \<Rightarrow> (string \<Rightarrow> url_parts) \<Rightarrow> uri \<Rightarrow> string option \<Rightarrow> string option
     \<Rightarrow> string option \<Rightarrow> string option \<Rightarrow> int \<Rightarrow> error + db_connection" where
  "HologresDBConnection_init absolute urlparse u username password database host port =
     (let self = \<lparr> c_uri = sanitize_uri absolute u, c_username = username, c_password = password,
                   c_database = database, c_host = host, c_port = Some port, c_engine = [] \<rparr>;
          merged =
            (if is_postgres_uri (c_uri self) then
               (case parse_hologres_uri urlparse (c_uri self) of
                  Inl e \<Rightarrow> Inl e
                | Inr parsed \<Rightarrow>
                    Inr (self\<lparr> c_username := or_str (c_username self) (p_username parsed),
                               c_password := or_str (c_password self) (p_password parsed),
                               c_host := or_str (c_host self) (p_hostname parsed),
                               c_port := or_port port (p_port parsed),
                               c_database := or_str (c_database self) (p_database parsed) \<rparr>))
             else Inr self)
      in case merged of
           Inl e \<Rightarrow> Inl e
         | Inr self \<Rightarrow>
             (case HologresDBConnection_build_connection_string self of
                Inl e \<Rightarrow> Inl e
              | Inr connection_string \<Rightarrow> Inr (self\<lparr> c_engine := connection_string \<rparr>)))"

section \<open>The specification's notions\<close>

text \<open>
  The clauses of the SQL text as the specification names them, each empty when its field
  is not set, and the ordering that is in force when the text is built.
\<close>

definition where_clause :: "condition list \<Rightarrow> string" where
  "where_clause cs = (if cs = [] then [] else '' WHERE '' @ join '' AND '' (map fst cs))"

definition effective_order_by :: "hologres_query \<Rightarrow> string option" where
  "effective_order_by self =
     (if is_vector_search self then Some ''_distance ASC'' else q_order_by self)"

definition order_by_clause :: "string option \<Rightarrow> string" where
  "order_by_clause ob = (case ob of None \<Rightarrow> [] | Some s \<Rightarrow> if s = [] then [] else '' ORDER BY '' @ s)"

definition limit_clause :: "int option \<Rightarrow> string" where
  "limit_clause l = (case l of None \<Rightarrow> [] | Some n \<Rightarrow> if n = 0 then [] else '' LIMIT '' @ str_int n)"

definition offset_clause :: "int option \<Rightarrow> string" where
  "offset_clause l = (case l of None \<Rightarrow> [] | Some n \<Rightarrow> if n = 0 then [] else '' OFFSET '' @ str_int n)"

text \<open>
  The select list: the selected columns, or \<open>*\<close> when none are selected, and for a vector
  search the distance expression after them; only the validation of the query vector can
  raise.
\<close>

definition select_list :: "numpy \<Rightarrow> hologres_query \<Rightarrow> error + string" where
  "select_list np self =
     (let columns = (case q_select_columns self of
                       None \<Rightarrow> ''*''
                     | Some cs \<Rightarrow> if cs = [] then ''*'' else join '', '' cs)
      in if is_vector_search self
         then (case ensure_vector_query np (q_query self) of
                 Inl e \<Rightarrow> Inl e
               | Inr query_vector \<Rightarrow>
                   Inr (columns @ '', ''
                        @ distance_expr np (the (q_vector_column_name self)) query_vector))
         else Inr columns)"

text \<open>A chain of calls of \<open>where\<close>, each on the query the one before returned.\<close>

fun where_chain :: "store \<Rightarrow> hologres_query \<Rightarrow> condition list \<Rightarrow> store \<times> hologres_query" where
  "where_chain st q [] = (st, q)"
| "where_chain st q ((c, args) # cs) =
     (case HologresQuery_where st q c args of (st', q') \<Rightarrow> where_chain st' q' cs)"

text \<open>
  The projection the specification promises a caller who selected columns: exactly the
  selected ones.
\<close>

definition selected_columns_only :: "hologres_query \<Rightarrow> string" where
  "selected_columns_only self = join '', '' (the (q_select_columns self))"

text \<open>
  The events of a request that is attempted \<open>j - k + 1\<close> times, from attempt \<open>k\<close> on: a sleep
  of \<open>d * 2 ^ i\<close> follows attempt \<open>i\<close> and precedes attempt \<open>i + 1\<close>.
\<close>

definition schedule :: "real \<Rightarrow> nat \<Rightarrow> nat \<Rightarrow> event list" where
  "schedule d k j = concat (map (\<lambda>i. [Request i, Sleep (d * 2 ^ i)]) [k..<j]) @ [Request j]"

text \<open>
  What validation without an expected dimension does to a value: it accepts it, it
  rejects it with a \<open>ValueError\<close>, which is what \<open>on_bad_vectors\<close> handles, or numpy
  raises something else. A value it accepts goes on as the list of its elements cast to
  \<open>float32\<close>.
\<close>

definition accepted :: "numpy \<Rightarrow> pyobj \<Rightarrow> bool" where
  "accepted np v = (case validate_vector_data np v None of Inr a \<Rightarrow> True | Inl e \<Rightarrow> False)"

definition rejected :: "numpy \<Rightarrow> pyobj \<Rightarrow> bool" where
  "rejected np v =
     (case validate_vector_data np v None of
        Inr a \<Rightarrow> False
      | Inl e \<Rightarrow> (case e of ValueError m \<Rightarrow> True | _ \<Rightarrow> False))"


text \<open>
  The same in terms of the value: it is accepted when it is a list, a tuple or an array
  with exactly one axis whose elements numpy converts.
\<close>

definition is_vector :: "pyobj \<Rightarrow> bool" where
  "is_vector v =
     (case v of
        PySeq sh xs \<Rightarrow> length sh = 1
      | FloatArray dt sh xs \<Rightarrow> length sh = 1
      | OtherArray sh xs \<Rightarrow> length sh = 1
      | _ \<Rightarrow> False)"

definition converts :: "numpy \<Rightarrow> pyobj \<Rightarrow> bool" where
  "converts np v =
     (case v of
        PySeq sh xs \<Rightarrow> (case cast_all np xs of Inr ys \<Rightarrow> True | Inl e \<Rightarrow> False)
      | OtherArray sh xs \<Rightarrow> (case cast_all np xs of Inr ys \<Rightarrow> True | Inl e \<Rightarrow> False)
      | _ \<Rightarrow> True)"






definition has_len :: "pyobj \<Rightarrow> bool" where
  "has_len v = (case fill_dim v of Inr d \<Rightarrow> True | Inl e \<Rightarrow> False)"


section \<open>Example inputs\<close>

text \<open>
  A numpy that leaves floats as they are, converts the integers \<open>0\<close> and \<open>1\<close>, raises
  \<open>TypeError\<close> for an object and \<open>ValueError\<close> for any other element.
\<close>

definition example_numpy :: numpy where
  "example_numpy =
     \<lparr> astype_float32 = (\<lambda>x. x),
       convert_float32 = (\<lambda>r. if r = ''0'' then Inr (Fin 0) else if r = ''1'' then Inr (Fin 1)
                               else if r = ''<object>'' then Inl (TypeError ''float() argument'')
                               else Inl (ValueError ''could not convert string to float'')),
       str_float = (\<lambda>x. case x of
                           Fin r \<Rightarrow> (if r = 1 then ''1.0'' else if r = 0 then ''0.0'' else ''2.5'')
                         | NaN \<Rightarrow> ''nan'' | PosInf \<Rightarrow> ''inf'' | NegInf \<Rightarrow> ''-inf'') \<rparr>"

definition empty_store :: store where
  "empty_store = \<lparr> next_addr = 0, lists = (\<lambda>a. []) \<rparr>"

definition flaky_server :: "nat \<Rightarrow> error + string" where
  "flaky_server k = (if k < 2 then Inl (RequestException ''503 Server Error'') else Inr ''{}'')"

definition down_server :: "nat \<Rightarrow> error + string" where
  "down_server k = Inl (RequestException ''connection refused'')"

definition example_table :: hologres_table where
  "example_table =
     \<lparr> t_engine = 0, t_name = ''docs'',
       t_schema = [\<lparr> field_name = ''id'', field_type = PrimitiveT ''string'' \<rparr>,
                   \<lparr> field_name = ''vector'', field_type = ListT \<rparr>] \<rparr>"

definition good_vector :: pyobj where
  "good_vector = FloatArray Float32 [3] [Fin 1, Fin 0, Fin 1]"

definition short_vector :: pyobj where
  "short_vector = FloatArray Float32 [2] [Fin 1, Fin 0]"

text \<open>Five rows with vectors of dimension 3, but for the third, of dimension 2.\<close>

definition bad_dimension_batch :: columns where
  "bad_dimension_batch =
     [(''id'', [PyStr ''a'', PyStr ''b'', PyStr ''c'', PyStr ''d'', PyStr ''e'']),
      (''vector'', [good_vector, good_vector, short_vector, good_vector, good_vector])]"

definition inserted_unchanged :: "row list" where
  "inserted_unchanged =
     [[(''id'', PyStr ''a''), (''vector'', PySeq [3] [PyFloat (Fin 1), PyFloat (Fin 0), PyFloat (Fin 1)])],
      [(''id'', PyStr ''b''), (''vector'', PySeq [3] [PyFloat (Fin 1), PyFloat (Fin 0), PyFloat (Fin 1)])],
      [(''id'', PyStr ''c''), (''vector'', PySeq [2] [PyFloat (Fin 1), PyFloat (Fin 0)])],
      [(''id'', PyStr ''d''), (''vector'', PySeq [3] [PyFloat (Fin 1), PyFloat (Fin 0), PyFloat (Fin 1)])],
      [(''id'', PyStr ''e''), (''vector'', PySeq [3] [PyFloat (Fin 1), PyFloat (Fin 0), PyFloat (Fin 1)])]]"

text \<open>
  A vector search on column \<open>v\<close> of table \<open>docs\<close> with the query vector \<open>[1.0]\<close>, the
  query after \<open>select(["id"])\<close> and the query after \<open>metric("l2")\<close>, each with the store
  its construction leaves.
\<close>

definition vector_store :: store where
  "vector_store = fst (HologresQuery_init empty_store 0 ''docs'' [] (PySeq [1] [PyFloat (Fin 1)])
                        (Some ''v'') ''vector'')"

definition vector_query :: hologres_query where
  "vector_query = snd (HologresQuery_init empty_store 0 ''docs'' [] (PySeq [1] [PyFloat (Fin 1)])
                        (Some ''v'') ''vector'')"

definition selected_store :: store where
  "selected_store = fst (HologresQuery_select vector_store vector_query [''id''])"

definition selected_query :: hologres_query where
  "selected_query = snd (HologresQuery_select vector_store vector_query [''id''])"

definition metric_query :: hologres_query where
  "metric_query = snd (HologresQuery_metric vector_store vector_query ''l2'')"

definition metric_store :: store where
  "metric_store = fst (HologresQuery_metric vector_store vector_query ''l2'')"

text \<open>
  A query without a query vector, refined by \<open>select(["id", "title"])\<close>, \<open>limit(5)\<close> and
  \<open>offset(10)\<close>, with the store the three calls leave.
\<close>

definition plain_refined :: "store \<times> hologres_query" where
  "plain_refined =
     (let (st, q) = HologresQuery_init empty_store 0 ''docs'' [] PyNone None ''vector'';
          (st, q) = HologresQuery_select st q [''id'', ''title''];
          (st, q) = HologresQuery_limit st q 5
      in HologresQuery_offset st q 10)"











text \<open>
  A remote table, a server that accepts every request, a batch of one row, and what
  \<open>urlparse\<close> finds in \<open>postgresql://u:p@h:5432/d\<close>.
\<close>

definition example_remote :: remote_table where
  "example_remote = \<lparr> rt_database = ''db'', rt_name = ''docs'', rt_schema = t_schema example_table \<rparr>"

definition example_json_dumps :: "pyobj \<Rightarrow> string" where
  "example_json_dumps v =
     (if v = PySeq [3] [PyFloat (Fin 1), PyFloat (Fin 0), PyFloat (Fin 1)] then ''[1.0, 0.0, 1.0]''
      else ''[]'')"

definition accepting_server :: "http_request \<Rightarrow> error + string" where
  "accepting_server request = Inr ''{}''"

definition one_row_batch :: columns where
  "one_row_batch =
     [(''id'', [PyStr ''n'']),
      (''vector'', [PySeq [3] [PyFloat (Fin 1), PyFloat (Fin 0), PyFloat (Fin 1)]])]"


definition example_url_parts :: url_parts where
  "example_url_parts = \<lparr> url_scheme = ''postgresql'', url_netloc = ''u:p@h:5432'',
      url_username = Some ''u'', url_password = Some ''p'', url_hostname = Some ''h'',
      url_port = Some 5432, url_path = ''/d'' \<rparr>"

section \<open>The retry loop of the HTTP client\<close>

lemma schedule_step:
  "k < j \<Longrightarrow> schedule d k j = Request k # Sleep (d * 2 ^ k) # schedule d (Suc k) j"
  by (simp add: schedule_def upt_conv_Cons)

lemma schedule_refl: "schedule d k k = [Request k]"
  by (simp add: schedule_def)

lemma attempts_schedule: "k \<le> j \<Longrightarrow> attempts (schedule d k j) = Suc (j - k)"
proof (induction "j - k" arbitrary: k)
  case 0
  then show ?case by (simp add: schedule_refl attempts_def)
next
  case (Suc n)
  then have "k < j" by simp
  from Suc.hyps(1)[of "Suc k"] Suc.hyps(2) Suc.prems
  have "attempts (schedule d (Suc k) j) = Suc (j - Suc k)" by simp
  with \<open>k < j\<close> show ?case by (simp add: schedule_step attempts_def)
qed

lemma max_sleep_float: "max_sleep < float_overflow"
  by (simp add: max_sleep_def float_overflow_def)

lemma sleep_accepted:
  assumes "0 \<le> d" and "d * 2 ^ k \<le> max_sleep" and "k < 1024"
  shows "times_pow2 (Fin d) k = Inr (Fin (d * 2 ^ k))"
    and "time_sleep (Fin (d * 2 ^ k)) = Inr (d * 2 ^ k)"
proof -
  from assms(1) have n: "0 \<le> d * 2 ^ k" by simp
  from assms(2) max_sleep_float have "d * 2 ^ k < float_overflow" by simp
  moreover from n have "- float_overflow < d * 2 ^ k" by (simp add: float_overflow_def)
  ultimately show "times_pow2 (Fin d) k = Inr (Fin (d * 2 ^ k))"
    using assms(3) by (simp add: times_pow2_def)
  from n assms(2) show "time_sleep (Fin (d * 2 ^ k)) = Inr (d * 2 ^ k)"
    by (simp add: time_sleep_def)
qed

lemma request_loop_success:
  "server k = Inr r \<Longrightarrow> request_loop config server (k # rest) = ([Request k], Inr (Some r))"
  by simp

lemma request_loop_retry:
  "server k = Inl (RequestException m) \<Longrightarrow> int k < max_retries config \<Longrightarrow>
   retry_delay config = Fin d \<Longrightarrow> 0 \<le> d \<Longrightarrow> d * 2 ^ k \<le> max_sleep \<Longrightarrow> k < 1024 \<Longrightarrow>
     request_loop config server (k # rest) =
       (Request k # Sleep (d * 2 ^ k) # fst (request_loop config server rest),
        snd (request_loop config server rest))"
  by (simp add: sleep_accepted split: prod.splits)

lemma request_loop_raise:
  "server k = Inl e \<Longrightarrow> (\<forall>m. e \<noteq> RequestException m) \<or> \<not> int k < max_retries config \<Longrightarrow>
     request_loop config server (k # rest) = ([Request k], Inl e)"
  by (cases e) auto

text \<open>
  A negative delay ends the loop at the first failure: \<open>time.sleep\<close> raises in the
  handler, and what leaves the method is its exception, not the server's.
\<close>

lemma request_loop_negative_delay:
  "server k = Inl (RequestException m) \<Longrightarrow> int k < max_retries config \<Longrightarrow>
   retry_delay config = Fin d \<Longrightarrow> d < 0 \<Longrightarrow>
     \<exists>e. request_loop config server (k # rest) = ([Request k], Inl e)"
  by (auto simp: times_pow2_def time_sleep_def mult_less_0_iff)

text \<open>
  After a failure that is retried the loop sleeps \<open>d * 2 ^ k\<close> and goes on, or the
  product or the sleep raises and the loop ends.
\<close>

lemma request_loop_step:
  assumes "server k = Inl (RequestException m)" and "int k < max_retries config"
    and "retry_delay config = Fin d"
  shows "request_loop config server (k # rest) =
           (Request k # Sleep (d * 2 ^ k) # fst (request_loop config server rest),
            snd (request_loop config server rest))
         \<or> (\<exists>e. request_loop config server (k # rest) = ([Request k], Inl e))"
proof (cases "times_pow2 (Fin d) k")
  case (Inl e)
  with assms show ?thesis by simp
next
  case (Inr delay)
  show ?thesis
  proof (cases "time_sleep delay")
    case (Inl e)
    with Inr assms show ?thesis by simp
  next
    case slept: (Inr x)
    then have "delay = Fin x" by (cases delay) (auto simp: time_sleep_def split: if_splits)
    with Inr have "x = d * 2 ^ k" by (auto simp: times_pow2_def split: if_splits)
    with Inr slept assms show ?thesis by (simp split: prod.splits)
  qed
qed

text \<open>
  From attempt \<open>k\<close> on the loop runs a schedule up to some attempt \<open>j\<close> within the range.
\<close>

lemma request_loop_schedule:
  "k < n \<Longrightarrow> n = nat (max_retries config + 1) \<Longrightarrow> retry_delay config = Fin d \<Longrightarrow>
     \<exists>j. k \<le> j \<and> j < n \<and> fst (request_loop config server [k..<n]) = schedule d k j"
proof (induction "n - k" arbitrary: k)
  case 0
  then show ?case by simp
next
  case (Suc x)
  have up: "[k..<n] = k # [Suc k..<n]" using Suc.prems(1) by (simp add: upt_conv_Cons)
  have stop: "\<exists>j. k \<le> j \<and> j < n \<and> fst (request_loop config server [k..<n]) = schedule d k j"
    if "request_loop config server (k # [Suc k..<n]) = ([Request k], r)" for r
  proof -
    from that have "fst (request_loop config server [k..<n]) = schedule d k k"
      unfolding up by (simp add: schedule_refl)
    with Suc.prems(1) show ?thesis by blast
  qed
  show ?case
  proof (cases "server k")
    case (Inr r)
    from stop[OF request_loop_success[where server=server and k=k, OF Inr]] show ?thesis .
  next
    case (Inl e)
    show ?thesis
    proof (cases "(\<exists>m. e = RequestException m) \<and> int k < max_retries config")
      case False
      then have c: "(\<forall>m. e \<noteq> RequestException m) \<or> \<not> int k < max_retries config" by blast
      from stop[OF request_loop_raise[where server=server and k=k, OF Inl c]] show ?thesis .
    next
      case True
      then obtain m where e: "server k = Inl (RequestException m)"
        and km: "int k < max_retries config"
        using Inl by blast
      from request_loop_step[where server=server and k=k, OF e km Suc.prems(3), of "[Suc k..<n]"]
      show ?thesis
      proof
        assume step: "request_loop config server (k # [Suc k..<n]) =
           (Request k # Sleep (d * 2 ^ k) # fst (request_loop config server [Suc k..<n]),
            snd (request_loop config server [Suc k..<n]))"
        have lt: "Suc k < n" using Suc.prems(2) km by linarith
        have x: "x = n - Suc k" using Suc.hyps(2) by linarith
        from Suc.hyps(1)[OF x lt Suc.prems(2,3)]
        obtain j where j: "Suc k \<le> j" "j < n"
          "fst (request_loop config server [Suc k..<n]) = schedule d (Suc k) j"
          by blast
        from j(1) have kj: "k < j" by simp
        have "fst (request_loop config server [k..<n]) = schedule d k j"
          unfolding up step schedule_step[OF kj] by (simp add: j(3))
        moreover have "k \<le> j" using kj by simp
        ultimately show ?thesis using j(2) by blast
      next
        assume "\<exists>e. request_loop config server (k # [Suc k..<n]) = ([Request k], Inl e)"
        then obtain e' where "request_loop config server (k # [Suc k..<n]) = ([Request k], Inl e')"
          by blast
        from stop[OF this] show ?thesis .
      qed
    qed
  qed
qed

lemma request_loop_attempts:
  "attempts (fst (request_loop config server ks)) \<le> length ks"
proof (induction ks)
  case Nil
  then show ?case by (simp add: attempts_def)
next
  case (Cons k ks)
  then show ?case
    by (auto simp: attempts_def Let_def split: sum.splits error.splits prod.splits)
qed

lemma make_request_fail_fail_ok:
  assumes "max_retries config = 3" and "retry_delay config = Fin d" and "0 \<le> d"
    and "2 * d \<le> max_sleep"
    and "server 0 = Inl (RequestException m0)" and "server 1 = Inl (RequestException m1)"
    and "server 2 = Inr r"
  shows "HologresCloudClient_make_request config server =
           ([Request 0, Sleep d, Request 1, Sleep (2 * d), Request 2], Inr (Some r))"
proof -
  have up: "[0..<nat (max_retries config + 1)] = [0, 1, 2, 3]"
    using assms(1) by (simp add: upt_conv_Cons)
  from assms(3,4) have s0: "d * 2 ^ 0 \<le> max_sleep" and s1: "d * 2 ^ 1 \<le> max_sleep" by simp_all
  have k: "(0::nat) < 1024" "(1::nat) < 1024" by simp_all
  have "request_loop config server [0, 1, 2, 3] =
      ([Request 0, Sleep d, Request 1, Sleep (2 * d), Request 2], Inr (Some r))"
    using assms sleep_accepted[OF assms(3) s0 k(1)] sleep_accepted[OF assms(3) s1 k(2)]
    by (simp add: mult.commute)
  then show ?thesis unfolding HologresCloudClient_make_request_def up .
qed

lemma make_request_no_retry:
  assumes "max_retries config = 0" and "server 0 = Inl e"
  shows "HologresCloudClient_make_request config server = ([Request 0], Inl e)"
  using assms by (simp add: HologresCloudClient_make_request_def split: error.splits)

lemma make_request_schedule:
  assumes "0 \<le> max_retries config" and "retry_delay config = Fin d"
  shows "\<exists>j\<le>nat (max_retries config).
           fst (HologresCloudClient_make_request config server) = schedule d 0 j"
proof -
  from assms have pos: "0 < nat (max_retries config + 1)" by simp
  from request_loop_schedule[OF pos refl assms(2), of server]
  obtain j where j: "j < nat (max_retries config + 1)"
    "fst (request_loop config server [0..<nat (max_retries config + 1)]) = schedule d 0 j"
    by blast
  from j(1) assms have "j \<le> nat (max_retries config)" by linarith
  with j(2) show ?thesis unfolding HologresCloudClient_make_request_def by blast
qed

lemma make_request_attempts:
  "attempts (fst (HologresCloudClient_make_request config server)) \<le> nat (max_retries config + 1)"
  using request_loop_attempts[of config server "[0..<nat (max_retries config + 1)]"]
  by (simp add: HologresCloudClient_make_request_def)

text \<open>
  Claim C8. With \<open>max_retries = m\<close> and a \<open>retry_delay\<close> that is a finite number \<open>d\<close>:
  when \<open>d\<close> is not negative and \<open>time.sleep\<close> takes \<open>2 * d\<close>, a request that fails twice
  with a request exception and then succeeds, with \<open>m = 3\<close>, is attempted exactly three
  times, with a sleep of \<open>d\<close> before the second attempt and of \<open>2 * d\<close> before the third.
  With \<open>m = 0\<close> one attempt is made and its failure is propagated, at most \<open>m + 1\<close>
  attempts are made, and the sleep between attempt \<open>k\<close> and attempt \<open>k + 1\<close> is
  \<open>d * 2 ^ k\<close>, whatever \<open>d\<close> is and whatever the server answers.
\<close>

theorem make_request_retry_backoff:
  "(max_retries config = 3 \<and> retry_delay config = Fin d \<and> 0 \<le> d \<and> 2 * d \<le> max_sleep
      \<and> server 0 = Inl (RequestException m0)
      \<and> server 1 = Inl (RequestException m1) \<and> server 2 = Inr r \<longrightarrow>
      HologresCloudClient_make_request config server =
        ([Request 0, Sleep d, Request 1, Sleep (2 * d), Request 2], Inr (Some r)))
   \<and> (max_retries config = 0 \<and> server 0 = Inl e \<longrightarrow>
        HologresCloudClient_make_request config server = ([Request 0], Inl e))
   \<and> attempts (fst (HologresCloudClient_make_request config server)) \<le> nat (max_retries config + 1)
   \<and> (0 \<le> max_retries config \<and> retry_delay config = Fin d \<longrightarrow>
        (\<exists>j\<le>nat (max_retries config).
           fst (HologresCloudClient_make_request config server) = schedule d 0 j))"
  using make_request_fail_fail_ok[of config d server m0 m1 r]
    make_request_no_retry[of config server e]
    make_request_attempts[of config server] make_request_schedule[of config d server]
  by blast

theorem make_request_retry_backoff_witness:
  "HologresCloudClient_make_request default_config flaky_server =
     ([Request 0, Sleep 1, Request 1, Sleep 2, Request 2], Inr (Some ''{}''))
   \<and> HologresCloudClient_make_request (default_config\<lparr> max_retries := 0 \<rparr>) down_server =
       ([Request 0], Inl (RequestException ''connection refused''))
   \<and> (\<exists>j\<le>3. fst (HologresCloudClient_make_request default_config down_server) = schedule 1 0 j)"
proof -
  have a: "max_retries default_config = 3 \<and> retry_delay default_config = Fin 1 \<and> (0::real) \<le> 1
      \<and> 2 * (1::real) \<le> max_sleep
      \<and> flaky_server 0 = Inl (RequestException ''503 Server Error'')
      \<and> flaky_server 1 = Inl (RequestException ''503 Server Error'') \<and> flaky_server 2 = Inr ''{}''"
    by (simp add: default_config_def flaky_server_def max_sleep_def)
  have b: "max_retries (default_config\<lparr> max_retries := 0 \<rparr>) = 0
      \<and> down_server 0 = Inl (RequestException ''connection refused'')"
    by (simp add: down_server_def)
  have c: "0 \<le> max_retries default_config \<and> retry_delay default_config = Fin 1"
    "nat (max_retries default_config) = 3"
    by (simp_all add: default_config_def)
  from a b c
    make_request_retry_backoff[of default_config 1 flaky_server "''503 Server Error''"
      "''503 Server Error''" "''{}''"]
    make_request_retry_backoff[of "default_config\<lparr> max_retries := 0 \<rparr>" _ down_server _ _ _
      "RequestException ''connection refused''"]
    make_request_retry_backoff[of default_config 1 down_server]
  show ?thesis by simp
qed

section \<open>Vectors of the wrong dimension\<close>

lemmas table_defs = HologresTable_insert_batch_def batch_to_pandas_def num_rows_def
  validate_vector_data_def ndim_def is_list_def df_setitem_def df_rows_def df_drop_def fill_dim_def
  example_table_def bad_dimension_batch_def good_vector_def short_vector_def enumerate_eq_zip

text \<open>
  Claim C3. The batch has five rows and the vector of the third has dimension 2 where
  the others have 3. The claim is that \<open>"error"\<close> raises and inserts nothing, that
  \<open>"drop"\<close> inserts the four good rows and that \<open>"fill"\<close> inserts five rows, the third
  with the fill value three times. The code validates each vector without an expected
  dimension, so the short vector passes: under each of the three policies nothing is
  raised and the five rows are inserted as they came.
\<close>

theorem insert_batch_ignores_dimension:
  "HologresTable_insert_batch example_numpy example_table bad_dimension_batch ''error'' (Fin 0) []
     = (inserted_unchanged, None)
   \<and> HologresTable_insert_batch example_numpy example_table bad_dimension_batch ''drop'' (Fin 0) []
     = (inserted_unchanged, None)
   \<and> HologresTable_insert_batch example_numpy example_table bad_dimension_batch ''fill'' (Fin 0) []
     = (inserted_unchanged, None)"
  by (simp add: table_defs inserted_unchanged_def upt_conv_Cons)

section \<open>The query builder\<close>

lemmas q_defs = HologresQuery_init_def HologresQuery_copy_def alloc_def list_append_def
  HologresQuery_limit_def HologresQuery_metric_def HologresQuery_where_def HologresQuery_select_def
  empty_store_def vector_store_def vector_query_def selected_store_def selected_query_def
  metric_query_def metric_store_def

lemmas sql_defs = build_select_clause_def is_vector_search_def truthy_list_def truthy_int_def
  ensure_vector_query_def validate_vector_data_def ndim_def distance_expr_def example_numpy_def
  cast_elem_def

text \<open>
  What \<open>_copy\<close> returns: the receiver with a new list of conditions, and without the
  three attributes the constructor does not know. It allocates two lists, the empty one
  of the constructor and the copy.
\<close>

lemma copy_frame:
  "HologresQuery_copy st self = (st', q') \<Longrightarrow>
     q' = self\<lparr> q_where_conditions := Suc (next_addr st), q_metric := None, q_nprobes := None,
               q_refine_factor := None \<rparr>
   \<and> next_addr st' = Suc (Suc (next_addr st))
   \<and> lists st' = (lists st)(next_addr st := [],
        Suc (next_addr st) := (if q_where_conditions self = next_addr st then []
                               else lists st (q_where_conditions self)))"
  apply (simp add: HologresQuery_copy_def HologresQuery_init_def alloc_def Let_def)
  apply (cases self)
  apply auto
  done

lemma where_frame:
  assumes "q_where_conditions self < next_addr st"
    and "HologresQuery_where st self c args = (st', q')"
  shows "q' = self\<lparr> q_where_conditions := Suc (next_addr st), q_metric := None, q_nprobes := None,
               q_refine_factor := None \<rparr>"
    and "next_addr st' = Suc (Suc (next_addr st))"
    and "lists st' (q_where_conditions q') = lists st (q_where_conditions self) @ [(c, args)]"
    and "\<forall>a < next_addr st. lists st' a = lists st a"
    and "q_where_conditions q' < next_addr st'"
proof -
  obtain st1 q1 where cp: "HologresQuery_copy st self = (st1, q1)"
    by (cases "HologresQuery_copy st self")
  note f = copy_frame[OF cp]
  from assms(2) cp have st': "st' = list_append st1 (q_where_conditions q1) (c, args)" and q': "q' = q1"
    by (auto simp: HologresQuery_where_def)
  from f q' show "q' = self\<lparr> q_where_conditions := Suc (next_addr st), q_metric := None, q_nprobes := None,
               q_refine_factor := None \<rparr>" by simp
  from f st' show "next_addr st' = Suc (Suc (next_addr st))" by (simp add: list_append_def)
  from f st' q' assms(1) show "lists st' (q_where_conditions q') = lists st (q_where_conditions self) @ [(c, args)]"
    by (simp add: list_append_def)
  from f st' q' show "\<forall>a < next_addr st. lists st' a = lists st a"
    by (simp add: list_append_def)
  from f st' q' show "q_where_conditions q' < next_addr st'"
    by (simp add: list_append_def)
qed

text \<open>
  Two refinements of one query: each result holds the conditions of the base and its own,
  and the list of the base is as it was.
\<close>

lemma where_branches_isolated:
  assumes "q_where_conditions q < next_addr st"
    and "HologresQuery_where st q a args_a = (st1, qa)"
    and "HologresQuery_where st1 q b args_b = (st2, qb)"
  shows "lists st2 (q_where_conditions qa) = lists st (q_where_conditions q) @ [(a, args_a)]"
    and "lists st2 (q_where_conditions qb) = lists st (q_where_conditions q) @ [(b, args_b)]"
    and "lists st2 (q_where_conditions q) = lists st (q_where_conditions q)"
proof -
  note f1 = where_frame[OF assms(1,2)]
  from f1(2) assms(1) have wf1: "q_where_conditions q < next_addr st1" by simp
  note f2 = where_frame[OF wf1 assms(3)]
  from f1(4) assms(1) have base1: "lists st1 (q_where_conditions q) = lists st (q_where_conditions q)"
    by simp
  from f2(4) f1(5) f1(3)
  show "lists st2 (q_where_conditions qa) = lists st (q_where_conditions q) @ [(a, args_a)]"
    by simp
  from f2(3) base1
  show "lists st2 (q_where_conditions qb) = lists st (q_where_conditions q) @ [(b, args_b)]"
    by simp
  from f2(4) wf1 base1
  show "lists st2 (q_where_conditions q) = lists st (q_where_conditions q)"
    by simp
qed

text \<open>
  Claim C1. Each refinement is to return the receiver with the one field updated and
  every other field equal. \<open>_copy\<close> carries over the attributes the constructor sets and
  not \<open>_metric\<close>, \<open>_nprobes\<close> and \<open>_refine_factor\<close>: the query \<open>q.metric("l2")\<close> has the
  metric, and \<open>q.metric("l2").limit(5)\<close> has lost it, so it is not the receiver with the
  limit updated.
\<close>

theorem copy_drops_metric:
  "q_metric metric_query = Some ''l2''
   \<and> q_metric (snd (HologresQuery_limit metric_store metric_query 5)) = None
   \<and> snd (HologresQuery_limit metric_store metric_query 5)
       \<noteq> metric_query\<lparr> q_limit_value := Some 5,
            q_where_conditions := q_where_conditions (snd (HologresQuery_limit metric_store metric_query 5)) \<rparr>"
  by (simp add: q_defs)

subsection \<open>The text of the query\<close>

lemma build_sql_text:
  "HologresQuery_build_sql np st self =
     (case build_select_clause np self of
        Inl e \<Rightarrow> (self, Inl e)
      | Inr (select_clause, self') \<Rightarrow>
          (self', Inr (''SELECT '' @ select_clause @ '' FROM '' @ q_table_name self
                       @ where_clause (lists st (q_where_conditions self))
                       @ order_by_clause (effective_order_by self)
                       @ limit_clause (q_limit_value self)
                       @ offset_clause (q_offset_value self))))"
proof (cases "build_select_clause np self")
  case (Inl e)
  then show ?thesis by (simp add: HologresQuery_build_sql_def)
next
  case (Inr p)
  obtain sc self' where p: "p = (sc, self')" by (cases p)
  from Inr p have s': "self' = (if is_vector_search self then self\<lparr> q_order_by := Some ''_distance ASC'' \<rparr> else self)"
    by (auto simp: build_select_clause_def Let_def split: if_splits sum.splits)
  have ob: "(if truthy_list (q_order_by self') then '' ORDER BY '' @ the (q_order_by self') else [])
            = order_by_clause (effective_order_by self)"
    by (simp add: s' effective_order_by_def order_by_clause_def truthy_list_def split: option.splits)
  have li: "\<And>v. (if truthy_int v then '' LIMIT '' @ str_int (the v) else []) = limit_clause v"
    by (simp add: limit_clause_def truthy_int_def split: option.splits)
  have off: "\<And>v. (if truthy_int v then '' OFFSET '' @ str_int (the v) else []) = offset_clause v"
    by (simp add: offset_clause_def truthy_int_def split: option.splits)
  have keep: "q_table_name self' = q_table_name self" "q_where_conditions self' = q_where_conditions self"
     "q_limit_value self' = q_limit_value self" "q_offset_value self' = q_offset_value self"
    by (simp_all add: s')
  have "HologresQuery_build_sql np st self =
     (self', Inr (''SELECT '' @ sc @ '' FROM '' @ q_table_name self'
        @ (if map fst (lists st (q_where_conditions self')) \<noteq> [] then '' WHERE '' @ join '' AND '' (map fst (lists st (q_where_conditions self'))) else [])
        @ (if truthy_list (q_order_by self') then '' ORDER BY '' @ the (q_order_by self') else [])
        @ (if truthy_int (q_limit_value self') then '' LIMIT '' @ str_int (the (q_limit_value self')) else [])
        @ (if truthy_int (q_offset_value self') then '' OFFSET '' @ str_int (the (q_offset_value self')) else [])))"
    unfolding HologresQuery_build_sql_def Inr p by (simp add: Let_def)
  then show ?thesis
    unfolding ob li off keep by (simp add: Inr p where_clause_def)
qed

lemma build_sql_result:
  "snd (HologresQuery_build_sql np st self) =
     map_sum id (\<lambda>select_clause. ''SELECT '' @ select_clause @ '' FROM '' @ q_table_name self
                       @ where_clause (lists st (q_where_conditions self))
                       @ order_by_clause (effective_order_by self)
                       @ limit_clause (q_limit_value self)
                       @ offset_clause (q_offset_value self))
       (map_sum id fst (build_select_clause np self))"
  by (simp add: build_sql_text split: sum.splits prod.splits)

lemma where_chain_frame:
  "q_where_conditions self < next_addr st \<Longrightarrow> where_chain st self cs = (st', q') \<Longrightarrow>
     lists st' (q_where_conditions q') = lists st (q_where_conditions self) @ cs
   \<and> q_where_conditions q' < next_addr st'
   \<and> (\<forall>a < next_addr st. lists st' a = lists st a)
   \<and> next_addr st \<le> next_addr st'
   \<and> q_table_name q' = q_table_name self
   \<and> q_limit_value q' = q_limit_value self
   \<and> q_offset_value q' = q_offset_value self
   \<and> q_order_by q' = q_order_by self
   \<and> q_select_columns q' = q_select_columns self
   \<and> q_query q' = q_query self
   \<and> q_query_type q' = q_query_type self
   \<and> q_vector_column_name q' = q_vector_column_name self"
proof (induction cs arbitrary: st self)
  case Nil
  then show ?case by simp
next
  case (Cons x cs)
  obtain c args where x: "x = (c, args)" by (cases x)
  obtain st1 q1 where w: "HologresQuery_where st self c args = (st1, q1)" by (cases "HologresQuery_where st self c args")
  from Cons.prems x w have ch: "where_chain st1 q1 cs = (st', q')" by simp
  note f = where_frame[OF Cons.prems(1) w]
  from Cons.IH[OF f(5) ch] f x show ?case
    by (auto)
qed

lemma select_text_cong:
  assumes "q_select_columns q' = q_select_columns q" "q_query q' = q_query q"
    "q_query_type q' = q_query_type q" "q_vector_column_name q' = q_vector_column_name q"
  shows "map_sum id fst (build_select_clause np q') = map_sum id fst (build_select_clause np q)"
  using assms by (simp add: build_select_clause_def is_vector_search_def Let_def split: sum.splits)

text \<open>
  Building the text a second time, on the object the first call left, gives the same
  text and leaves the object as it is.
\<close>

lemma build_sql_twice:
  "HologresQuery_build_sql np st (fst (HologresQuery_build_sql np st self)) =
     HologresQuery_build_sql np st self"
proof (cases "build_select_clause np self")
  case (Inl e)
  then show ?thesis by (simp add: build_sql_text)
next
  case (Inr p)
  obtain sc self' where p: "p = (sc, self')" by (cases p)
  from Inr p have s': "self' = (if is_vector_search self then self\<lparr> q_order_by := Some ''_distance ASC'' \<rparr> else self)"
    by (auto simp: build_select_clause_def Let_def split: if_splits sum.splits)
  have again: "build_select_clause np self' = Inr (sc, self')"
    using Inr p s' by (auto simp: build_select_clause_def is_vector_search_def Let_def split: if_splits sum.splits)
  have eo: "effective_order_by self' = effective_order_by self"
    by (simp add: s' effective_order_by_def is_vector_search_def)
  have keep: "q_table_name self' = q_table_name self" "q_where_conditions self' = q_where_conditions self"
     "q_limit_value self' = q_limit_value self" "q_offset_value self' = q_offset_value self"
    by (simp_all add: s')
  show ?thesis
    by (simp add: build_sql_text Inr p again eo keep)
qed

text \<open>
  Claim C2. Materializing is to leave every query building field as it was, the ordering
  among them. \<open>_build_sql\<close> assigns \<open>self._order_by\<close> for a vector search: the query had
  no ordering before \<open>to_pandas\<close> and has \<open>_distance ASC\<close> after it.
\<close>

theorem to_pandas_assigns_order_by:
  "q_order_by vector_query = None
   \<and> q_order_by (fst (HologresQuery_to_pandas example_numpy (\<lambda>sql. sql) vector_store vector_query))
       = Some ''_distance ASC''
   \<and> fst (HologresQuery_to_pandas example_numpy (\<lambda>sql. sql) vector_store vector_query) \<noteq> vector_query"
  by (simp add: HologresQuery_to_pandas_def HologresQuery_build_sql_def q_defs sql_defs Let_def)

lemma select_list_eq: "select_list np self = map_sum id fst (build_select_clause np self)"
  by (auto simp: select_list_def build_select_clause_def truthy_list_def Let_def
      split: option.splits sum.splits)

text \<open>
  Claim C7. The text of every query is the clauses SELECT, FROM, WHERE, ORDER BY, LIMIT
  and OFFSET in this order, each of the last four empty when its field is not set, and
  the WHERE clause joins with AND the conditions the query had and those a chain of
  \<open>where\<close> calls added, in the order of the calls. The text is produced for every
  query but a vector search whose query vector does not validate: for that one the call
  raises the error of the validation, and only then.
\<close>

theorem build_sql_clause_order:
  assumes "q_where_conditions q < next_addr st"
    and "where_chain st q cs = (st', q')"
  shows "snd (HologresQuery_build_sql np st' q') =
           map_sum id
             (\<lambda>select_clause. ''SELECT '' @ select_clause @ '' FROM '' @ q_table_name q
                 @ where_clause (lists st (q_where_conditions q) @ cs)
                 @ order_by_clause (effective_order_by q)
                 @ limit_clause (q_limit_value q)
                 @ offset_clause (q_offset_value q))
             (select_list np q)"
proof -
  note f = where_chain_frame[OF assms(1,2)]
  from f have sel: "map_sum id fst (build_select_clause np q') = map_sum id fst (build_select_clause np q)"
    by (intro select_text_cong) simp_all
  from f have eo: "effective_order_by q' = effective_order_by q"
    by (simp add: effective_order_by_def is_vector_search_def)
  show ?thesis
    unfolding build_sql_result sel eo select_list_eq using f by simp
qed

theorem build_sql_clause_order_witness:
  "snd (HologresQuery_build_sql example_numpy
          (fst (where_chain (fst plain_refined) (snd plain_refined) [(''a > 1'', []), (''b = 2'', [])]))
          (snd (where_chain (fst plain_refined) (snd plain_refined) [(''a > 1'', []), (''b = 2'', [])])))
     = Inr ''SELECT id, title FROM docs WHERE a > 1 AND b = 2 LIMIT 5 OFFSET 10''"
proof -
  let ?cs = "[(''a > 1'', []), (''b = 2'', [])] :: condition list"
  have a: "q_where_conditions (snd plain_refined) < next_addr (fst plain_refined)"
    by (simp add: plain_refined_def q_defs HologresQuery_offset_def)
  have b: "where_chain (fst plain_refined) (snd plain_refined) ?cs =
      (fst (where_chain (fst plain_refined) (snd plain_refined) ?cs),
       snd (where_chain (fst plain_refined) (snd plain_refined) ?cs))" by simp
  have l: "lists (fst plain_refined) (q_where_conditions (snd plain_refined)) = []"
    by (simp add: plain_refined_def q_defs HologresQuery_offset_def)
  have t: "q_table_name (snd plain_refined) = ''docs''"
    "q_limit_value (snd plain_refined) = Some 5"
    "q_offset_value (snd plain_refined) = Some 10"
    "effective_order_by (snd plain_refined) = None"
    "select_list example_numpy (snd plain_refined) = Inr ''id, title''"
    by (simp_all add: plain_refined_def q_defs HologresQuery_offset_def effective_order_by_def
        is_vector_search_def select_list_def)
  have n: "str_int 5 = ''5''" "str_int 10 = ''10''" by code_simp+
  from build_sql_clause_order[OF a b, of example_numpy] l t n
  show ?thesis
    by (simp add: where_clause_def order_by_clause_def limit_clause_def offset_clause_def)
qed

text \<open>
  Claim C6, as amended. For a vector search whose query vector validates, the statement
  sent selects the caller's columns (or \<open>*\<close>) and after them the distance expression
  named \<open>_distance\<close>, orders by \<open>_distance ASC\<close> whatever ordering the object held, and
  the frame returned is the database's answer to this statement, with no column removed.
\<close>

theorem to_pandas_vector_search:
  assumes "is_vector_search self"
    and "ensure_vector_query np (q_query self) = Inr query_vector"
  shows "HologresQuery_to_pandas np read_sql st self =
     (self\<lparr> q_order_by := Some ''_distance ASC'' \<rparr>,
      Inr (read_sql (''SELECT ''
         @ (if truthy_list (q_select_columns self) then join '', '' (the (q_select_columns self))
            else ''*'')
         @ '', '' @ distance_expr np (the (q_vector_column_name self)) query_vector
         @ '' FROM '' @ q_table_name self
         @ where_clause (lists st (q_where_conditions self))
         @ '' ORDER BY _distance ASC''
         @ limit_clause (q_limit_value self)
         @ offset_clause (q_offset_value self))))"
proof -
  have sc: "build_select_clause np self =
      Inr ((if truthy_list (q_select_columns self) then join '', '' (the (q_select_columns self))
            else ''*'')
           @ '', '' @ distance_expr np (the (q_vector_column_name self)) query_vector,
           self\<lparr> q_order_by := Some ''_distance ASC'' \<rparr>)"
    using assms by (simp add: build_select_clause_def Let_def)
  have ob: "order_by_clause (effective_order_by self) = '' ORDER BY _distance ASC''"
    using assms(1) by (simp add: effective_order_by_def order_by_clause_def)
  show ?thesis
    unfolding HologresQuery_to_pandas_def build_sql_text sc ob by simp
qed

theorem to_pandas_vector_search_witness:
  "HologresQuery_to_pandas example_numpy (\<lambda>sql. sql) vector_store vector_query =
     (vector_query\<lparr> q_order_by := Some ''_distance ASC'' \<rparr>,
      Inr (''SELECT *, array_distance(v, '' @ [CHR 0x27] @ ''[1.0]'' @ [CHR 0x27]
           @ ''::real[]) AS _distance FROM docs ORDER BY _distance ASC''))"
proof -
  have a: "is_vector_search vector_query"
    by (simp add: q_defs is_vector_search_def truthy_list_def)
  have b: "ensure_vector_query example_numpy (q_query vector_query) = Inr (Array Float32 [1] [Fin 1])"
    by (simp add: q_defs sql_defs)
  from to_pandas_vector_search[OF a b, of "\<lambda>sql. sql" vector_store]
  show ?thesis
    by (simp add: q_defs sql_defs where_clause_def limit_clause_def offset_clause_def)
qed

lemma sel_eval: "build_select_clause example_numpy selected_query =
    Inr (''id, array_distance(v, '' @ [CHR 0x27] @ ''[1.0]'' @ [CHR 0x27] @ ''::real[]) AS _distance'',
         selected_query\<lparr> q_order_by := Some ''_distance ASC'' \<rparr>)"
  by (simp add: q_defs sql_defs)

text \<open>
  The claim as it was stated fails: with \<open>select(["id"])\<close> the select list of the statement
  is not the selected column alone, and \<open>to_pandas\<close> returns the answer to that statement
  (here the database echoes the statement it is sent).
\<close>

theorem to_pandas_keeps_distance_column:
  "map_sum id fst (build_select_clause example_numpy selected_query) =
     Inr (''id, array_distance(v, '' @ [CHR 0x27] @ ''[1.0]'' @ [CHR 0x27] @ ''::real[]) AS _distance'')
   \<and> map_sum id fst (build_select_clause example_numpy selected_query) \<noteq> Inr (selected_columns_only selected_query)
   \<and> snd (HologresQuery_to_pandas example_numpy (\<lambda>sql. sql) selected_store selected_query) =
      Inr (''SELECT id, array_distance(v, '' @ [CHR 0x27] @ ''[1.0]'' @ [CHR 0x27]
           @ ''::real[]) AS _distance FROM docs ORDER BY _distance ASC'')"
  by (simp add: HologresQuery_to_pandas_def build_sql_text sel_eval selected_columns_only_def
      where_clause_def order_by_clause_def effective_order_by_def limit_clause_def offset_clause_def)
    (simp add: q_defs sql_defs)

section \<open>Validation of vectors during add\<close>

text \<open>
  Validation without an expected dimension accepts exactly the lists, tuples and arrays
  with one axis that numpy converts; it looks neither at their length nor at whether
  their elements are finite.
\<close>

lemma accepted_iff: "accepted np v = (is_vector v \<and> converts np v)"
  by (cases v)
     (auto simp: accepted_def is_vector_def converts_def validate_vector_data_def ndim_def
           split: sum.splits)


lemma rejected_validate:
  "rejected np v \<Longrightarrow> \<exists>m. validate_vector_data np v None = Inl (ValueError m)"
  by (auto simp: rejected_def split: sum.splits error.splits)


lemma rejected_not_accepted: "rejected np v \<Longrightarrow> \<not> accepted np v"
  by (auto simp: rejected_def accepted_def split: sum.splits)

lemma float_array_accepted: "accepted np (FloatArray dt [n] xs)"
  by (simp add: accepted_iff is_vector_def converts_def)

lemma not_sequence_rejected:
  "rejected np PyNone" "rejected np (PyStr s)" "rejected np PyObject" "rejected np (PyRagged n)"
  by (simp_all add: rejected_def validate_vector_data_def)

lemma wrong_axes_rejected: "converts np v \<Longrightarrow> \<not> is_vector v \<Longrightarrow> rejected np v"
  by (cases v)
     (auto simp: rejected_def is_vector_def converts_def validate_vector_data_def ndim_def
           split: sum.splits)

subsection \<open>The loop over a column\<close>








text \<open>Under \<open>"fill"\<close> a rejected value whose \<open>len\<close> raises ends the loop.\<close>

lemma validate_column_fill_unsized:
  assumes "rejected np v" and "\<not> has_len v"
  shows "\<exists>e. validate_column np ''fill'' fv ((i, v) # rest) df vectors = Inl e"
proof -
  from rejected_validate[OF assms(1)] obtain m
    where m: "validate_vector_data np v None = Inl (ValueError m)" by blast
  from assms(2) obtain e where "fill_dim v = Inl e" by (auto simp: has_len_def split: sum.splits)
  with m show ?thesis by simp
qed

subsection \<open>The loop over the fields\<close>




lemma df_drop_names:
  "df_drop df i = Inr df' \<Longrightarrow> map fst (df_columns df') = map fst (df_columns df)"
  by (auto simp: df_drop_def case_prod_unfold split: if_splits)









subsection \<open>One batch\<close>











subsection \<open>The batches of a call\<close>







section \<open>The mode of add\<close>

text \<open>
  The local table empties the table on \<open>"overwrite"\<close> and keeps the rows on \<open>"append"\<close>.
  The remote table never reads \<open>mode\<close>: whatever it is, every request is a POST of rows
  with the mode \<open>"append"\<close>.
\<close>

lemma remote_add_ignores_mode:
  "RemoteTable_add send json_dumps self data mode on_bad_vectors fill_value =
   RemoteTable_add send json_dumps self data mode' on_bad_vectors' fill_value'"
  by (simp add: RemoteTable_add_def)

lemma remote_requests_append:
  "list_all (\<lambda>r. req_method r = ''POST'' \<and> req_mode r = ''append'')
     (fst (remote_insert_batches send json_dumps self bs))"
  by (induction bs) (auto simp: HologresCloudClient_insert_data_def Let_def split: sum.splits prod.splits)

lemma insert_batches_appends:
  "insert_batches np self obv fv bs db =
     (db @ fst (insert_batches np self obv fv bs []), snd (insert_batches np self obv fv bs []))"
proof (induction bs arbitrary: db)
  case Nil
  then show ?case by simp
next
  case (Cons b bs)
  show ?case
  proof (cases "validate_fields np obv fv (t_schema self) (batch_to_pandas b)")
    case (Inl e)
    then show ?thesis by (simp add: HologresTable_insert_batch_def)
  next
    case (Inr df)
    from Cons.IH[of "db @ df_rows df"] Cons.IH[of "df_rows df"] Inr
    show ?thesis by (simp add: HologresTable_insert_batch_def)
  qed
qed

lemma local_add_modes:
  assumes "into_pyarrow_reader data = Inr bs"
  shows "fst (HologresTable_add np self data ''overwrite'' obv fv db)
           = fst (insert_batches np self obv fv bs [])"
    and "fst (HologresTable_add np self data ''append'' obv fv db)
           = db @ fst (insert_batches np self obv fv bs [])"
  using insert_batches_appends[of np self obv fv bs db] assms
  by (simp_all add: HologresTable_add_def)

text \<open>
  \<open>RemoteTable\<close> itself cannot be instantiated; a subclass that defines \<open>__len__\<close> can.
\<close>

lemma RemoteTable_is_abstract:
  "RemoteTable_new database name schema = Inl (TypeError ''Can't instantiate abstract class'')"
  by (simp add: RemoteTable_new_def instantiate_def Table_abstract_methods_def
      RemoteTable_methods_def)

lemma RemoteTable_subclass_instance:
  "RemoteTable_subclass_new [''__len__''] database name schema =
     Inr \<lparr> rt_database = database, rt_name = name, rt_schema = schema \<rparr>"
  by (simp add: RemoteTable_subclass_new_def instantiate_def Table_abstract_methods_def
      RemoteTable_methods_def)

text \<open>
  Claim C5. On either backend \<open>mode = "overwrite"\<close> is to delete the existing rows first.
  The remote table is an instance of a subclass of \<open>RemoteTable\<close> that defines \<open>__len__\<close>,
  and the data a dictionary of lists. \<open>add\<close> with \<open>"overwrite"\<close> sends what it sends with
  \<open>"append"\<close>: one POST of the new rows in mode \<open>"append"\<close>, and no request that would
  clear the table.
\<close>

theorem remote_add_never_clears:
  "RemoteTable_subclass_new [''__len__''] ''db'' ''docs'' (t_schema example_table) = Inr example_remote
   \<and> RemoteTable_add accepting_server example_json_dumps example_remote (ColumnDict one_row_batch)
       ''overwrite'' ''error'' (Fin 0)
     = ([\<lparr> req_method = ''POST'', req_endpoint = ''/api/v1/databases/db/tables/docs/data'',
           req_data = [[(''id'', PyStr ''n''), (''vector'', PyStr ''[1.0, 0.0, 1.0]'')]],
           req_mode = ''append'' \<rparr>], None)
   \<and> RemoteTable_add accepting_server example_json_dumps example_remote (ColumnDict one_row_batch)
       ''overwrite'' ''error'' (Fin 0)
     = RemoteTable_add accepting_server example_json_dumps example_remote (ColumnDict one_row_batch)
         ''append'' ''error'' (Fin 0)"
  by (simp add: RemoteTable_subclass_instance RemoteTable_add_def into_pyarrow_reader_def num_rows_def
      batch_rows_def one_row_batch_def example_remote_def example_json_dumps_def
      accepting_server_def HologresCloudClient_insert_data_def)

section \<open>Connection parameters\<close>

text \<open>
  For a PostgreSQL URI the string the engine is created from is the URI itself, whatever
  the explicit parameters are.
\<close>

lemma sanitize_postgres: "is_postgres_uri s \<Longrightarrow> sanitize_uri absolute (StrUri s) = s"
  by (simp add: sanitize_uri_def)

lemma connection_string_is_uri:
  assumes "is_postgres_uri s"
  shows "\<exists>self. HologresDBConnection_init absolute urlparse (StrUri s) username password database host port
           = Inr self \<and> c_engine self = s"
proof -
  have p: "\<exists>parsed. parse_hologres_uri urlparse s = Inr parsed"
    using assms by (simp add: parse_hologres_uri_def Let_def)
  then obtain parsed where parsed: "parse_hologres_uri urlparse s = Inr parsed" by blast
  show ?thesis
    using assms parsed
    by (simp add: HologresDBConnection_init_def sanitize_postgres Let_def
        HologresDBConnection_build_connection_string_def)
qed

text \<open>
  Claim C9. An explicit parameter is to win over the URI in the actual connection. With
  the URI \<open>postgresql://u:p@h:5432/d\<close> and \<open>username = "alice"\<close> the attribute holds
  \<open>alice\<close>, but the engine is created from the URI, so connects as \<open>u\<close>; and the port
  attribute holds the default 80, not the 5432 of the URI, though no port was given.
\<close>

theorem connection_ignores_explicit_username:
  "map_sum id c_engine
     (HologresDBConnection_init (\<lambda>p. p) (\<lambda>uri. example_url_parts)
        (StrUri ''postgresql://u:p@h:5432/d'') (Some ''alice'') None None None 80)
     = Inr ''postgresql://u:p@h:5432/d''
   \<and> map_sum id c_username
     (HologresDBConnection_init (\<lambda>p. p) (\<lambda>uri. example_url_parts)
        (StrUri ''postgresql://u:p@h:5432/d'') (Some ''alice'') None None None 80)
     = Inr (Some ''alice'')
   \<and> map_sum id c_port
     (HologresDBConnection_init (\<lambda>p. p) (\<lambda>uri. example_url_parts)
        (StrUri ''postgresql://u:p@h:5432/d'') (Some ''alice'') None None None 80)
     = Inr (Some 80)"
  by (simp add: HologresDBConnection_init_def sanitize_uri_def is_postgres_uri_def startswith_def
      parse_hologres_uri_def example_url_parts_def or_str_def or_port_def truthy_list_def
      HologresDBConnection_build_connection_string_def Let_def)

section \<open>Search on a remote table\<close>

lemma local_search_returns:
  "HologresTable_search st self query vector_column_name query_type =
     (fst (HologresQuery_init st (t_engine self) (t_name self) (t_schema self) query
             vector_column_name query_type),
      Inr (snd (HologresQuery_init st (t_engine self) (t_name self) (t_schema self) query
             vector_column_name query_type)))"
  by (simp add: HologresTable_search_def HologresQuery_call_def bind_arguments_def
      HologresQuery_params_def split: prod.splits)

text \<open>
  Claim C10. \<open>RemoteTable.search\<close> never returns a query: for every table and all
  arguments it raises \<open>TypeError\<close>, because it calls \<open>HologresQuery\<close> with the keyword
  \<open>table\<close>, which is not a parameter of the constructor.
\<close>

theorem remote_search_raises:
  "RemoteTable_search st self query vector_column_name query_type =
     (st, Inl (TypeError ''got an unexpected keyword argument table''))"
  by (simp add: RemoteTable_search_def HologresQuery_call_def bind_arguments_def
      HologresQuery_params_def)

end
